theory Spec2Isabelle
  imports Main
begin

section \<open>Values of the Python program\<close>

text \<open>
  The service (\<^verbatim>\<open>main.py\<close>) talks to the PhantomBuster API with \<^verbatim>\<open>requests\<close> and to a
  Firestore collection. JSON documents are the values it handles. A Python \<^verbatim>\<open>dict\<close> is an
  association list read with \<open>map_of\<close>; it stands for a dictionary when its keys are
  distinct, and it keeps the insertion order as Python does. Numbers are integers.
\<close>

datatype json =
    JNull
  | JBool bool
  | JNum int
  | JStr string
  | JList "json list"
  | JObj "(string \<times> json) list"

type_synonym dict = "(string \<times> json) list"

text \<open>\<^verbatim>\<open>d.get(k, default)\<close> and \<^verbatim>\<open>d.get(k)\<close>, whose default is \<^verbatim>\<open>None\<close>.\<close>

definition get_default :: "dict \<Rightarrow> string \<Rightarrow> json \<Rightarrow> json" where
  "get_default d k v = (case map_of d k of None \<Rightarrow> v | Some x \<Rightarrow> x)"

definition get :: "dict \<Rightarrow> string \<Rightarrow> json" where
  "get d k = get_default d k JNull"

text \<open>Python's truth value of a JSON value, and \<^verbatim>\<open>a or b\<close>.\<close>

fun truthy :: "json \<Rightarrow> bool" where
  "truthy JNull = False"
| "truthy (JBool b) = b"
| "truthy (JNum n) = (n \<noteq> 0)"
| "truthy (JStr s) = (s \<noteq> [])"
| "truthy (JList xs) = (xs \<noteq> [])"
| "truthy (JObj kvs) = (kvs \<noteq> [])"

definition py_or :: "json \<Rightarrow> json \<Rightarrow> json" where
  "py_or a b = (if truthy a then a else b)"

text \<open>\<^verbatim>\<open>needle in hay\<close> on strings.\<close>

fun starts_with :: "string \<Rightarrow> string \<Rightarrow> bool" where
  "starts_with [] hay = True"
| "starts_with (c # cs) [] = False"
| "starts_with (c # cs) (h # hs) = (c = h \<and> starts_with cs hs)"

fun str_in :: "string \<Rightarrow> string \<Rightarrow> bool" where
  "str_in needle [] = (needle = [])"
| "str_in needle (h # hs) = (starts_with needle (h # hs) \<or> str_in needle hs)"

text \<open>\<^verbatim>\<open>str(type(data))\<close> for the values that reach the format check.\<close>

fun type_str :: "json \<Rightarrow> string" where
  "type_str JNull = ''<class 'NoneType'>''"
| "type_str (JBool b) = ''<class 'bool'>''"
| "type_str (JNum n) = ''<class 'int'>''"
| "type_str (JStr s) = ''<class 'str'>''"
| "type_str (JList xs) = ''<class 'list'>''"
| "type_str (JObj kvs) = ''<class 'dict'>''"

text \<open>The name of the Python type of a decoded JSON value.\<close>

fun type_name :: "json \<Rightarrow> string" where
  "type_name JNull = ''NoneType''"
| "type_name (JBool b) = ''bool''"
| "type_name (JNum n) = ''int''"
| "type_name (JStr s) = ''str''"
| "type_name (JList xs) = ''list''"
| "type_name (JObj kvs) = ''dict''"

subsection \<open>Exceptions\<close>

text \<open>
  The Python errors the program can run into: \<^verbatim>\<open>ValueError\<close> with its message,
  \<^verbatim>\<open>KeyError\<close> with the missing key, \<^verbatim>\<open>AttributeError\<close> with the type of the object that
  has no \<^verbatim>\<open>get\<close>, \<^verbatim>\<open>TypeError\<close> with the type of the object that was subscripted.
\<close>

datatype pyerr = ValueError string | KeyError string | AttributeError string | TypeError string

datatype exn =
    HTTPException nat string
  | RequestException string
  | PyError pyerr
  | FirestoreError string

text \<open>
  Library functions the program calls and that are taken as given: \<^verbatim>\<open>json.loads\<close>
  (\<open>None\<close> when it raises \<^verbatim>\<open>JSONDecodeError\<close>), \<^verbatim>\<open>str\<close> on a decoded JSON value,
  \<^verbatim>\<open>str\<close> on an exception, and the check of the Firestore client on the path of a
  document: \<open>document_error lib i\<close> is the message of the \<^verbatim>\<open>ValueError\<close> that
  \<^verbatim>\<open>db.collection('users').document(i)\<close> raises, \<open>None\<close> when it returns a reference.
\<close>

record pylib =
  json_loads :: "string \<Rightarrow> json option"
  py_str :: "json \<Rightarrow> string"
  exc_str :: "exn \<Rightarrow> string"
  document_error :: "string \<Rightarrow> string option"

subsection \<open>The outside world\<close>

text \<open>
  A call of \<^verbatim>\<open>requests\<close> either raises a \<^verbatim>\<open>RequestException\<close> or returns a response, of
  which the program reads \<^verbatim>\<open>status_code\<close>, \<^verbatim>\<open>text\<close> (\<open>resp_text\<close>) and \<^verbatim>\<open>json()\<close>.
  The body of a response is a JSON document, \<open>json_value\<close>; a body that \<^verbatim>\<open>json()\<close> cannot
  decode is outside the model. Logging and \<^verbatim>\<open>print\<close> are left out.
\<close>

record response =
  status_code :: nat
  resp_text :: string
  json_value :: json

datatype reply = NetworkError string | Response response

text \<open>
  Firestore field values; \<open>ServerTimestamp\<close> is \<^verbatim>\<open>firestore.SERVER_TIMESTAMP\<close>. A
  document is found by its collection and its id.
\<close>

datatype fval = FStr string | ServerTimestamp

type_synonym fields = "(string \<times> fval) list"
type_synonym document = "string \<rightharpoonup> fval"
type_synonym store = "string \<times> string \<rightharpoonup> document"

text \<open>Everything the program does to the outside, in the order it does it.\<close>

datatype event =
    AgentFetch string
  | AgentLaunch string string string
  | ContainerFetch json
  | ResultFetch json
  | UrlGet json
  | Sleep nat
  | DocGet string string
  | DocSet string string fields
  | DocUpdate string string fields

text \<open>
  The provider's answers: \<open>agents_fetch w p n\<close> answers the status check number \<open>n\<close>
  (from 0) of phantom \<open>p\<close>, \<open>agents_launch w p c u n\<close> the launch attempt number \<open>n\<close>,
  \<open>containers_fetch w c n\<close> the poll number \<open>n\<close> of container \<open>c\<close>. \<open>phantom_key\<close> is the
  environment variable \<^verbatim>\<open>PHANTOM_KEY\<close>; \<open>db_fault w e\<close> is the message of the exception
  Firestore raises on operation \<open>e\<close>, if it does.
\<close>

record world =
  phantom_key :: "string option"
  agents_fetch :: "string \<Rightarrow> nat \<Rightarrow> reply"
  agents_launch :: "string \<Rightarrow> string \<Rightarrow> string \<Rightarrow> nat \<Rightarrow> reply"
  containers_fetch :: "json \<Rightarrow> nat \<Rightarrow> reply"
  containers_fetch_result :: "json \<Rightarrow> reply"
  url_get :: "json \<Rightarrow> reply"
  db_fault :: "event \<Rightarrow> string option"

text \<open>A computation yields the events it caused and a value or the exception raised.\<close>

type_synonym 'a run = "event list \<times> (exn + 'a)"

definition prepend :: "event list \<Rightarrow> 'a run \<Rightarrow> 'a run" where
  "prepend ev m = (ev @ fst m, snd m)"

definition bind_run :: "'a run \<Rightarrow> ('a \<Rightarrow> 'b run) \<Rightarrow> 'b run" where
  "bind_run m f = (case snd m of Inl e \<Rightarrow> (fst m, Inl e) | Inr x \<Rightarrow> prepend (fst m) (f x))"

section \<open>PhantomBusterClient\<close>

definition max_retries :: nat where
  "max_retries = 5"

definition retry_delay :: nat where
  "retry_delay = 60"

definition phantom_ids :: "string list" where
  "phantom_ids = [''2696753432671290'', ''2786592566218024'', ''8109199544661391'']"

text \<open>\<^verbatim>\<open>is_phantom_running\<close>: one status check.\<close>

definition is_phantom_running :: "world \<Rightarrow> string \<Rightarrow> nat \<Rightarrow> bool run" where
  "is_phantom_running w phantom_id n =
     ([AgentFetch phantom_id],
      case agents_fetch w phantom_id n of
        NetworkError m \<Rightarrow> Inl (RequestException m)
      | Response r \<Rightarrow>
          if status_code r \<noteq> 200
          then Inl (HTTPException 500 (''Error checking phantom status: '' @ resp_text r))
          else (case json_value r of
                  JObj d \<Rightarrow> Inr (get d ''status'' = JStr ''RUNNING'')
                | v \<Rightarrow> Inl (PyError (AttributeError (type_name v)))))"

text \<open>
  \<^verbatim>\<open>wait_for_phantom_availability\<close>: the body of \<^verbatim>\<open>for attempt in range(self.max_retries)\<close>
  from \<open>attempt\<close> on. Only \<^verbatim>\<open>HTTPException\<close> is caught.
\<close>

definition sleep_unless_last :: "nat \<Rightarrow> event list" where
  "sleep_unless_last attempt = (if attempt < max_retries - 1 then [Sleep retry_delay] else [])"

function wait_loop :: "world \<Rightarrow> string \<Rightarrow> nat \<Rightarrow> bool run" where
  "wait_loop w phantom_id attempt =
     (if attempt < max_retries then
        (case is_phantom_running w phantom_id attempt of
           (ev, Inr running) \<Rightarrow>
             if \<not> running then (ev, Inr True)
             else prepend (ev @ sleep_unless_last attempt) (wait_loop w phantom_id (attempt + 1))
         | (ev, Inl (HTTPException c d)) \<Rightarrow>
             prepend (ev @ sleep_unless_last attempt) (wait_loop w phantom_id (attempt + 1))
         | (ev, Inl e) \<Rightarrow> (ev, Inl e))
      else ([], Inr False))"
  by pat_completeness auto
termination
  by (relation "measure (\<lambda>(w, p, attempt). max_retries - attempt)") auto

declare wait_loop.simps [simp del]

definition wait_for_phantom_availability :: "world \<Rightarrow> string \<Rightarrow> bool run" where
  "wait_for_phantom_availability w phantom_id = wait_loop w phantom_id 0"

text \<open>\<^verbatim>\<open>get_available_phantom\<close>: the loop over the ids, then the 503.\<close>

fun first_available :: "world \<Rightarrow> string list \<Rightarrow> string run" where
  "first_available w [] =
     ([], Inl (HTTPException 503 ''All phantoms are busy and maximum retry attempts reached''))"
| "first_available w (phantom_id # rest) =
     (case wait_for_phantom_availability w phantom_id of
        (ev, Inl e) \<Rightarrow> (ev, Inl e)
      | (ev, Inr available) \<Rightarrow>
          if available then (ev, Inr phantom_id) else prepend ev (first_available w rest))"

definition get_available_phantom :: "world \<Rightarrow> string run" where
  "get_available_phantom w = first_available w phantom_ids"

text \<open>
  \<^verbatim>\<open>trigger_phantom\<close>: the body of \<^verbatim>\<open>for attempt in range(self.max_retries)\<close> from
  \<open>attempt\<close> on, then the 503 after the loop. The \<^verbatim>\<open>continue\<close> is under
  \<^verbatim>\<open>if attempt < self.max_retries - 1\<close>; otherwise control reaches the \<^verbatim>\<open>raise\<close> below it,
  which \<^verbatim>\<open>except requests.exceptions.RequestException\<close> does not catch.
\<close>

function trigger_loop :: "pylib \<Rightarrow> world \<Rightarrow> string \<Rightarrow> string \<Rightarrow> string \<Rightarrow> nat \<Rightarrow> json run" where
  "trigger_loop lib w phantom_id linkedin_cookies search_url attempt =
     (if attempt < max_retries then
        (case agents_launch w phantom_id linkedin_cookies search_url attempt of
           Response r \<Rightarrow>
             if status_code r = 200 then
               ([AgentLaunch phantom_id linkedin_cookies search_url],
                case json_value r of
                  JObj d \<Rightarrow> (case map_of d ''containerId'' of
                               None \<Rightarrow> Inl (PyError (KeyError ''containerId''))
                             | Some container_id \<Rightarrow> Inr container_id)
                | v \<Rightarrow> Inl (PyError (TypeError (type_name v))))
             else if str_in ''maxParallelismReached'' (py_str lib (json_value r))
                     \<and> attempt < max_retries - 1 then
               prepend [AgentLaunch phantom_id linkedin_cookies search_url, Sleep retry_delay]
                 (trigger_loop lib w phantom_id linkedin_cookies search_url (attempt + 1))
             else
               ([AgentLaunch phantom_id linkedin_cookies search_url],
                Inl (HTTPException 500 (''Error launching phantom: '' @ resp_text r)))
         | NetworkError m \<Rightarrow>
             if attempt = max_retries - 1 then
               ([AgentLaunch phantom_id linkedin_cookies search_url],
                Inl (HTTPException 500
                  (''Network error launching phantom: '' @ exc_str lib (RequestException m))))
             else
               prepend [AgentLaunch phantom_id linkedin_cookies search_url, Sleep retry_delay]
                 (trigger_loop lib w phantom_id linkedin_cookies search_url (attempt + 1)))
      else
        ([], Inl (HTTPException 503 ''Maximum retry attempts reached while launching phantom'')))"
  by pat_completeness auto
termination
  by (relation "measure (\<lambda>(lib, w, p, c, u, attempt). max_retries - attempt)") auto

declare trigger_loop.simps [simp del]

definition trigger_phantom :: "pylib \<Rightarrow> world \<Rightarrow> string \<Rightarrow> string \<Rightarrow> string \<Rightarrow> json run" where
  "trigger_phantom lib w phantom_id linkedin_cookies search_url =
     trigger_loop lib w phantom_id linkedin_cookies search_url 0"

text \<open>
  \<^verbatim>\<open>check_container_status\<close>: \<^verbatim>\<open>while retry_count < max_retries\<close> with its local
  \<^verbatim>\<open>max_retries = 30\<close>. Every iteration that goes on adds one to \<^verbatim>\<open>retry_count\<close>, so the
  poll made at \<open>retry_count\<close> is the poll number \<open>retry_count\<close>. The loop also yields the
  value of \<^verbatim>\<open>retry_count\<close> at its exit. Only \<^verbatim>\<open>RequestException\<close> is caught.
\<close>

definition container_max_retries :: nat where
  "container_max_retries = 30"

function check_loop :: "pylib \<Rightarrow> world \<Rightarrow> json \<Rightarrow> nat \<Rightarrow> event list \<times> nat \<times> (exn + unit)" where
  "check_loop lib w container_id retry_count =
     (if retry_count < container_max_retries then
        (case containers_fetch w container_id retry_count of
           Response r \<Rightarrow>
             if status_code r \<noteq> 200 then
               ([ContainerFetch container_id], retry_count,
                Inl (HTTPException 500 (''Failed to check container status: '' @ resp_text r)))
             else
               (case json_value r of
                  JObj d \<Rightarrow>
                    if get d ''status'' = JStr ''finished'' then
                      ([ContainerFetch container_id], retry_count, Inr ())
                    else if get d ''status'' = JStr ''failed'' then
                      ([ContainerFetch container_id], retry_count,
                       Inl (HTTPException 500 (''Container execution failed: ''
                          @ py_str lib (get_default d ''error'' (JStr ''Unknown error'')))))
                    else
                      (case check_loop lib w container_id (retry_count + 1) of
                         (ev, res) \<Rightarrow> ([ContainerFetch container_id, Sleep 10] @ ev, res))
                | v \<Rightarrow> ([ContainerFetch container_id], retry_count,
                       Inl (PyError (AttributeError (type_name v)))))
         | NetworkError m \<Rightarrow>
             (case check_loop lib w container_id (retry_count + 1) of
                (ev, res) \<Rightarrow> ([ContainerFetch container_id, Sleep 10] @ ev, res)))
      else
        ([], retry_count, Inl (HTTPException 504 ''Container execution timed out'')))"
  by pat_completeness auto
termination
  by (relation "measure (\<lambda>(lib, w, c, retry_count). container_max_retries - retry_count)") auto

declare check_loop.simps [simp del]

definition check_container_status :: "pylib \<Rightarrow> world \<Rightarrow> json \<Rightarrow> unit run" where
  "check_container_status lib w container_id =
     (case check_loop lib w container_id 0 of (ev, retry_count, res) \<Rightarrow> (ev, res))"

section \<open>LinkedInDataProcessor\<close>

text \<open>The fields that \<^verbatim>\<open>LinkedInProfile\<close> declares, in its order.\<close>

definition profile_fields :: "string list" where
  "profile_fields =
     [''firstName'', ''lastName'', ''title'', ''companyName'', ''industry'', ''companyLocation'',
      ''profileLocation'', ''connectionDegree'', ''profileImageUrl'', ''sharedConnectionsCount'',
      ''defaultProfileUrl'', ''companyUrl'']"

definition process_profile :: "dict \<Rightarrow> dict" where
  "process_profile item =
     [(''firstName'', get_default item ''firstName'' (JStr '''')),
      (''lastName'', get_default item ''lastName'' (JStr '''')),
      (''title'', get_default item ''title'' (JStr '''')),
      (''companyName'', get_default item ''companyName'' (JStr '''')),
      (''industry'', get_default item ''industry'' (JStr '''')),
      (''companyLocation'', get_default item ''companyLocation'' (JStr '''')),
      (''profileLocation'', get_default item ''location'' (JStr '''')),
      (''connectionDegree'', get_default item ''connectionDegree'' (JStr '''')),
      (''profileImageUrl'', get_default item ''profileImageUrl'' (JStr '''')),
      (''sharedConnectionsCount'', get_default item ''sharedConnectionsCount'' (JNum 0)),
      (''defaultProfileUrl'', get_default item ''defaultProfileUrl'' (JStr '''')),
      (''companyUrl'', py_or (get_default item ''CompanyUrl'' (JStr ''''))
                             (get_default item ''regularCompanyUrl'' (JStr '''')))]"

text \<open>
  \<^verbatim>\<open>[LinkedInDataProcessor.process_profile(item) for item in data]\<close>: an item that is not
  a dictionary has no \<^verbatim>\<open>get\<close>.
\<close>

fun process_all :: "json list \<Rightarrow> exn + dict list" where
  "process_all [] = Inr []"
| "process_all (item # rest) =
     (case item of
        JObj d \<Rightarrow> (case process_all rest of
                     Inl e \<Rightarrow> Inl e
                   | Inr profiles \<Rightarrow> Inr (process_profile d # profiles))
      | v \<Rightarrow> Inl (PyError (AttributeError (type_name v))))"

text \<open>
  The body of the \<^verbatim>\<open>try\<close> of \<^verbatim>\<open>fetch_and_clean_data\<close> in three steps: reading and decoding
  \<^verbatim>\<open>resultObject\<close>, following \<^verbatim>\<open>jsonUrl\<close>, and turning the data into profiles.
\<close>

definition read_result :: "pylib \<Rightarrow> json \<Rightarrow> json run" where
  "read_result lib response_json =
     ([], case response_json of
            JObj d \<Rightarrow>
              if get d ''resultObject'' = JNull then
                Inl (HTTPException 500 ''No data received from PhantomBuster'')
              else (case get d ''resultObject'' of
                      JStr s \<Rightarrow> (case json_loads lib s of
                                  None \<Rightarrow> Inl (HTTPException 500
                                            ''Invalid data format received from PhantomBuster'')
                                | Some data \<Rightarrow> Inr data)
                    | result \<Rightarrow> Inr result)
          | v \<Rightarrow> Inl (PyError (AttributeError (type_name v))))"

definition follow_json_url :: "world \<Rightarrow> json \<Rightarrow> json run" where
  "follow_json_url w data =
     (case data of
        JObj d \<Rightarrow>
          (case map_of d ''jsonUrl'' of
             None \<Rightarrow> ([], Inr data)
           | Some json_url \<Rightarrow>
               ([UrlGet json_url],
                case url_get w json_url of
                  NetworkError m \<Rightarrow> Inl (RequestException m)
                | Response json_response \<Rightarrow>
                    if status_code json_response \<noteq> 200 then
                      Inl (HTTPException 500 ''Failed to fetch JSON from external URL'')
                    else Inr (json_value json_response)))
      | _ \<Rightarrow> ([], Inr data))"

definition to_profiles :: "json \<Rightarrow> dict list run" where
  "to_profiles data =
     ([], if data = JNull then Inr []
          else (case data of
                  JObj d \<Rightarrow> process_all [JObj d]
                | JList items \<Rightarrow> process_all items
                | _ \<Rightarrow> Inl (HTTPException 500
                         (''Unexpected data format received from PhantomBuster: ''
                            @ type_str data))))"

text \<open>
  \<^verbatim>\<open>fetch_and_clean_data\<close>: the status check is outside the \<^verbatim>\<open>try\<close>; whatever the body
  raises, an \<^verbatim>\<open>HTTPException\<close> too, is caught by \<^verbatim>\<open>except Exception\<close> and raised again as
  a 500.
\<close>

definition fetch_and_clean_data :: "pylib \<Rightarrow> world \<Rightarrow> json \<Rightarrow> dict list run" where
  "fetch_and_clean_data lib w container_id =
     prepend [ResultFetch container_id]
       (case containers_fetch_result w container_id of
          NetworkError m \<Rightarrow> ([], Inl (RequestException m))
        | Response r \<Rightarrow>
            if status_code r \<noteq> 200 then
              ([], Inl (HTTPException 500 (''Failed to fetch data: '' @ resp_text r)))
            else
              (case bind_run (read_result lib (json_value r))
                      (\<lambda>data. bind_run (follow_json_url w data) to_profiles) of
                 (ev, Inl e) \<Rightarrow>
                   (ev, Inl (HTTPException 500 (''Error processing data: '' @ exc_str lib e)))
               | (ev, Inr profiles) \<Rightarrow> (ev, Inr profiles)))"

section \<open>The session store\<close>

text \<open>
  The Firestore client's \<^verbatim>\<open>get().exists\<close>, \<^verbatim>\<open>set\<close> and \<^verbatim>\<open>update\<close> on the document \<open>i\<close> of
  collection \<open>c\<close>: \<^verbatim>\<open>set\<close> replaces the document, \<^verbatim>\<open>update\<close> overwrites the given fields
  of a document that exists and raises on one that does not. They write what they are
  given and add nothing.
\<close>

definition firestore_exists :: "world \<Rightarrow> store \<Rightarrow> string \<Rightarrow> string \<Rightarrow> bool run" where
  "firestore_exists w st c i =
     ([DocGet c i],
      case db_fault w (DocGet c i) of
        Some m \<Rightarrow> Inl (FirestoreError m)
      | None \<Rightarrow> Inr (st (c, i) \<noteq> None))"

definition firestore_set :: "world \<Rightarrow> store \<Rightarrow> string \<Rightarrow> string \<Rightarrow> fields \<Rightarrow> store \<times> unit run" where
  "firestore_set w st c i data =
     (case db_fault w (DocSet c i data) of
        Some m \<Rightarrow> (st, [DocSet c i data], Inl (FirestoreError m))
      | None \<Rightarrow> (st((c, i) \<mapsto> map_of data), [DocSet c i data], Inr ()))"

definition firestore_update :: "world \<Rightarrow> store \<Rightarrow> string \<Rightarrow> string \<Rightarrow> fields \<Rightarrow> store \<times> unit run" where
  "firestore_update w st c i data =
     (case db_fault w (DocUpdate c i data) of
        Some m \<Rightarrow> (st, [DocUpdate c i data], Inl (FirestoreError m))
      | None \<Rightarrow>
          (case st (c, i) of
             None \<Rightarrow> (st, [DocUpdate c i data], Inl (FirestoreError ''NotFound''))
           | Some doc \<Rightarrow> (st((c, i) \<mapsto> doc ++ map_of data), [DocUpdate c i data], Inr ())))"

text \<open>The helpers \<^verbatim>\<open>check_user_exists\<close>, \<^verbatim>\<open>create_new_user\<close> and \<^verbatim>\<open>updateUser\<close>.\<close>

definition check_user_exists :: "world \<Rightarrow> store \<Rightarrow> string \<Rightarrow> event list \<times> bool" where
  "check_user_exists w st user_id =
     (case firestore_exists w st ''users'' user_id of
        (ev, Inl e) \<Rightarrow> (ev, False)
      | (ev, Inr found) \<Rightarrow> (ev, found))"

definition field_default :: "fields \<Rightarrow> string \<Rightarrow> fval \<Rightarrow> fval" where
  "field_default data k v = (case map_of data k of None \<Rightarrow> v | Some x \<Rightarrow> x)"

definition create_new_user :: "world \<Rightarrow> store \<Rightarrow> string \<Rightarrow> fields \<Rightarrow> store \<times> bool run" where
  "create_new_user w st user_id data =
     (case firestore_set w st ''users'' user_id
             [(''Events_URL'', field_default data ''Events_URL'' (FStr '''')),
              (''sessionCookie'', field_default data ''sessionCookie'' (FStr ''''))] of
        (st', ev, Inl e) \<Rightarrow> (st', ev, Inl (HTTPException 500 ''Failed to create new user''))
      | (st', ev, Inr u) \<Rightarrow> (st', ev, Inr True))"

definition updateUser ::
  "world \<Rightarrow> store \<Rightarrow> string \<Rightarrow> string \<Rightarrow> string \<Rightarrow> string \<Rightarrow> store \<times> bool run" where
  "updateUser w st collection_name document_id field_name field_value =
     (let user_id = document_id;
          (ev, user_exists) = check_user_exists w st user_id;
          data = (if field_name = ''last_updated'' then [(''last_updated'', ServerTimestamp)]
                  else [(field_name, FStr field_value), (''last_updated'', ServerTimestamp)])
      in if \<not> user_exists then
           (case create_new_user w st user_id data of
              (st', ev', Inl e) \<Rightarrow>
                (st', ev @ ev', Inl (HTTPException 500 ''Failed to process user data''))
            | (st', ev', Inr b) \<Rightarrow> (st', ev @ ev', Inr b))
         else
           (case firestore_update w st collection_name user_id data of
              (st', ev', Inl e) \<Rightarrow>
                (st', ev @ ev', Inl (HTTPException 500 ''Failed to process user data''))
            | (st', ev', Inr u) \<Rightarrow> (st', ev @ ev', Inr True)))"

section \<open>The endpoint \<^verbatim>\<open>POST /scrape\<close>\<close>

record SalesNavQueryData =
  url :: string
  cookie :: string
  userId :: string

text \<open>\<^verbatim>\<open>PhantomBusterClient.__init__\<close> reads the key and raises \<^verbatim>\<open>ValueError\<close> without one.\<close>

definition PhantomBusterClient :: "world \<Rightarrow> exn + unit" where
  "PhantomBusterClient w =
     (if phantom_key w = None \<or> phantom_key w = Some '''' then
        Inl (PyError (ValueError ''PhantomBuster API key not found in environment variables''))
      else Inr ())"

text \<open>The four stages of the provider, each started only when the one before returned.\<close>

definition run_job :: "pylib \<Rightarrow> world \<Rightarrow> SalesNavQueryData \<Rightarrow> dict list run" where
  "run_job lib w query_data =
     bind_run (get_available_phantom w) (\<lambda>phantom_id.
     bind_run (trigger_phantom lib w phantom_id (cookie query_data) (url query_data))
       (\<lambda>container_id.
     bind_run (check_container_status lib w container_id) (\<lambda>u.
     fetch_and_clean_data lib w container_id)))"

text \<open>
  The inner \<^verbatim>\<open>try\<close> of the endpoint: the document is read, then created with
  \<^verbatim>\<open>user_data\<close> or updated with it. \<^verbatim>\<open>updateUser\<close> is not called.
\<close>

definition save_session :: "pylib \<Rightarrow> world \<Rightarrow> store \<Rightarrow> string \<Rightarrow> SalesNavQueryData \<Rightarrow> store \<times> unit run" where
  "save_session lib w st user_id query_data =
     (let user_data = [(''Events_URL'', FStr (url query_data)),
                       (''sessionCookie'', FStr (cookie query_data))]
      in case firestore_exists w st ''users'' user_id of
           (ev, Inl e) \<Rightarrow>
             (st, ev, Inl (HTTPException 500 (''Failed to handle user document: '' @ exc_str lib e)))
         | (ev, Inr found) \<Rightarrow>
             (case (if \<not> found then firestore_set w st ''users'' user_id user_data
                    else firestore_update w st ''users'' user_id user_data) of
                (st', ev', Inl e) \<Rightarrow>
                  (st', ev @ ev',
                   Inl (HTTPException 500 (''Failed to handle user document: '' @ exc_str lib e)))
              | (st', ev', Inr u) \<Rightarrow> (st', ev @ ev', Inr ())))"

text \<open>
  The outer handlers: an \<^verbatim>\<open>HTTPException\<close> is raised again as it is, any other exception
  becomes a 500. In the endpoint the document reference
  \<^verbatim>\<open>db.collection('users').document(user_id)\<close> is made after the client and before a
  phantom is looked for; it touches nothing outside, and the \<^verbatim>\<open>ValueError\<close> it raises for
  a path that is not a document's ends the request.
\<close>

definition reraise :: "pylib \<Rightarrow> exn \<Rightarrow> exn" where
  "reraise lib e =
     (case e of
        HTTPException c d \<Rightarrow> HTTPException c d
      | _ \<Rightarrow> HTTPException 500 (''Internal server error: '' @ exc_str lib e))"

definition search_sales_navigator ::
  "pylib \<Rightarrow> world \<Rightarrow> store \<Rightarrow> SalesNavQueryData \<Rightarrow> dict \<Rightarrow> store \<times> json run" where
  "search_sales_navigator lib w st query_data user =
     (if user = [] then (st, [], Inl (HTTPException 400 ''Invalid user data''))
      else case map_of user ''uid'' of
        None \<Rightarrow> (st, [], Inl (HTTPException 400 ''Invalid user data''))
      | Some uid \<Rightarrow>
          (case PhantomBusterClient w of
             Inl e \<Rightarrow> (st, [], Inl (reraise lib e))
           | Inr client \<Rightarrow>
               (let user_id = py_str lib uid in
                case document_error lib user_id of
                  Some m \<Rightarrow> (st, [], Inl (reraise lib (PyError (ValueError m))))
                | None \<Rightarrow>
                    (case run_job lib w query_data of
                       (ev, Inl e) \<Rightarrow> (st, ev, Inl (reraise lib e))
                     | (ev, Inr results) \<Rightarrow>
                         (case save_session lib w st user_id query_data of
                            (st', ev', Inl e) \<Rightarrow> (st', ev @ ev', Inl (reraise lib e))
                          | (st', ev', Inr u) \<Rightarrow>
                              (st', ev @ ev',
                               Inr (JObj [(''events'', JList (map JObj results)),
                                          (''userId'', JStr user_id),
                                          (''message'', JStr (url query_data))])))))))"

text \<open>What a trace contains.\<close>

fun is_status_check :: "event \<Rightarrow> bool" where
  "is_status_check (AgentFetch p) = True"
| "is_status_check e = False"

fun is_launch :: "event \<Rightarrow> bool" where
  "is_launch (AgentLaunch p c u) = True"
| "is_launch e = False"

fun is_poll :: "event \<Rightarrow> bool" where
  "is_poll (ContainerFetch c) = True"
| "is_poll e = False"

fun is_normalize :: "event \<Rightarrow> bool" where
  "is_normalize (ResultFetch c) = True"
| "is_normalize (UrlGet u) = True"
| "is_normalize e = False"

fun is_write :: "event \<Rightarrow> bool" where
  "is_write (DocSet c i data) = True"
| "is_write (DocUpdate c i data) = True"
| "is_write e = False"

fun written_fields :: "event \<Rightarrow> fields" where
  "written_fields (DocSet c i data) = data"
| "written_fields (DocUpdate c i data) = data"
| "written_fields e = []"

text \<open>
  A status check after which \<^verbatim>\<open>wait_for_phantom_availability\<close> goes on to the next
  attempt: the phantom is running, or the check raised an \<^verbatim>\<open>HTTPException\<close>.
\<close>

definition still_busy :: "bool run \<Rightarrow> bool" where
  "still_busy r =
     (case snd r of
        Inr running \<Rightarrow> running
      | Inl (HTTPException c d) \<Rightarrow> True
      | Inl e \<Rightarrow> False)"

text \<open>
  The trace of the attempts \<open>a\<close> to \<open>b - 1\<close> of \<^verbatim>\<open>wait_for_phantom_availability\<close> when each
  of them goes on: a check and a sleep for each attempt, no sleep after the last one of
  the budget.
\<close>

definition busy_trace :: "string \<Rightarrow> nat \<Rightarrow> nat \<Rightarrow> event list" where
  "busy_trace phantom_id a b =
     concat (map (\<lambda>attempt. AgentFetch phantom_id # sleep_unless_last attempt) [a..<b])"

text \<open>
  A launch answered with the provider's "maximum parallelism reached": a response that is
  not a 200 and whose body, as \<^verbatim>\<open>str\<close> prints it, contains \<^verbatim>\<open>maxParallelismReached\<close>.
\<close>

definition parallelism_limited :: "pylib \<Rightarrow> reply \<Rightarrow> bool" where
  "parallelism_limited lib rp =
     (case rp of
        NetworkError m \<Rightarrow> False
      | Response r \<Rightarrow>
          status_code r \<noteq> 200 \<and> str_in ''maxParallelismReached'' (py_str lib (json_value r)))"

text \<open>The trace of the launch attempts \<open>a\<close> to \<open>b - 1\<close> when each of them is retried.\<close>

definition launch_trace :: "string \<Rightarrow> string \<Rightarrow> string \<Rightarrow> nat \<Rightarrow> nat \<Rightarrow> event list" where
  "launch_trace phantom_id linkedin_cookies search_url a b =
     concat (map (\<lambda>attempt. AgentLaunch phantom_id linkedin_cookies search_url
                              # sleep_unless_last attempt) [a..<b])"

text \<open>
  Polls of \<^verbatim>\<open>check_container_status\<close>: one after which the loop goes on (the request
  raised, or the job's status is neither \<^verbatim>\<open>finished\<close> nor \<^verbatim>\<open>failed\<close>), and one that reports
  \<^verbatim>\<open>finished\<close>.
\<close>

definition pending_poll :: "reply \<Rightarrow> bool" where
  "pending_poll rp =
     (case rp of
        NetworkError m \<Rightarrow> True
      | Response r \<Rightarrow>
          status_code r = 200 \<and>
          (case json_value r of
             JObj d \<Rightarrow> get d ''status'' \<noteq> JStr ''finished'' \<and> get d ''status'' \<noteq> JStr ''failed''
           | _ \<Rightarrow> False))"

definition finished_poll :: "reply \<Rightarrow> bool" where
  "finished_poll rp =
     (case rp of
        NetworkError m \<Rightarrow> False
      | Response r \<Rightarrow>
          status_code r = 200 \<and>
          (case json_value r of JObj d \<Rightarrow> get d ''status'' = JStr ''finished'' | _ \<Rightarrow> False))"

text \<open>The trace of the polls \<open>a\<close> to \<open>b - 1\<close> when the loop goes on after each.\<close>

definition poll_trace :: "json \<Rightarrow> nat \<Rightarrow> nat \<Rightarrow> event list" where
  "poll_trace container_id a b =
     concat (map (\<lambda>n. [ContainerFetch container_id, Sleep 10]) [a..<b])"

section \<open>Example runs\<close>

text \<open>The decimal digits of a number, as Python prints it.\<close>

fun show_nat :: "nat \<Rightarrow> string" where
  "show_nat n =
     (if n < 10 then [''0123456789'' ! n]
      else show_nat (n div 10) @ [''0123456789'' ! (n mod 10)])"

declare show_nat.simps [simp del]

definition quoted :: "string \<Rightarrow> string" where
  "quoted s = [CHR 0x27] @ s @ [CHR 0x27]"

text \<open>
  \<^verbatim>\<open>str\<close> of an exception: of an \<^verbatim>\<open>HTTPException\<close> the status code, a colon and the
  detail; of an exception of \<^verbatim>\<open>requests\<close> or Firestore its message; of a \<^verbatim>\<open>ValueError\<close> its
  message, of a \<^verbatim>\<open>KeyError\<close> the key in quotes, of the \<^verbatim>\<open>AttributeError\<close> and the
  \<^verbatim>\<open>TypeError\<close> the message Python gives for the type.
\<close>

fun ex_exc_str :: "exn \<Rightarrow> string" where
  "ex_exc_str (HTTPException c d) = show_nat c @ '': '' @ d"
| "ex_exc_str (RequestException m) = m"
| "ex_exc_str (FirestoreError m) = m"
| "ex_exc_str (PyError (ValueError m)) = m"
| "ex_exc_str (PyError (KeyError k)) = quoted k"
| "ex_exc_str (PyError (AttributeError t)) = quoted t @ '' object has no attribute '' @ quoted ''get''"
| "ex_exc_str (PyError (TypeError t)) =
     (if t = ''list'' then ''list indices must be integers or slices, not str''
      else if t = ''str'' then ''string indices must be integers, not '' @ quoted ''str''
      else quoted t @ '' object is not subscriptable'')"

text \<open>
  The library the examples run with. \<^verbatim>\<open>str\<close> and \<^verbatim>\<open>json.loads\<close> are given at the
  values the examples use: \<^verbatim>\<open>str\<close> of a string is the string, \<^verbatim>\<open>str\<close> of the provider's
  error body is Python's rendering of that dictionary, \<^verbatim>\<open>json.loads\<close> is given at three
  JSON texts and fails on \<^verbatim>\<open>not json\<close>. A path \<^verbatim>\<open>users/i\<close> is a document's when it has an
  even number of elements, that is when \<open>i\<close> has an even number of slashes.
\<close>

definition ex_lib :: pylib where
  "ex_lib =
     \<lparr>json_loads = (\<lambda>s. if s = ''null'' then Some JNull
                         else if s = ''{}'' then Some (JObj [])
                         else if s = ''[{}, {}]'' then Some (JList [JObj [], JObj []])
                         else None),
      py_str = (\<lambda>v. if v = JObj [(''error'', JStr ''maxParallelismReached'')]
                      then ''{'error': 'maxParallelismReached'}''
                      else (case v of JStr s \<Rightarrow> s | _ \<Rightarrow> '''')),
      exc_str = ex_exc_str,
      document_error = (\<lambda>i. if odd (length (filter (\<lambda>ch. ch = CHR ''/'') i))
                              then Some ''A document must have an even number of path elements''
                              else None)\<rparr>"

definition ok_response :: "json \<Rightarrow> reply" where
  "ok_response j = Response \<lparr>status_code = 200, resp_text = '''', json_value = j\<rparr>"

definition error_response :: "nat \<Rightarrow> string \<Rightarrow> json \<Rightarrow> reply" where
  "error_response c t j = Response \<lparr>status_code = c, resp_text = t, json_value = j\<rparr>"

text \<open>
  The scenario of a request that succeeds: the first phantom is idle at once, the launch
  returns container \<^verbatim>\<open>J1\<close> on the first attempt, the third poll reports \<^verbatim>\<open>finished\<close>, and
  the result is a string that encodes a list of two records.
\<close>

definition ex_world :: world where
  "ex_world =
     \<lparr>phantom_key = Some ''key'',
      agents_fetch = (\<lambda>p n. ok_response (JObj [(''status'', JStr ''idle'')])),
      agents_launch = (\<lambda>p c u n. ok_response (JObj [(''containerId'', JStr ''J1'')])),
      containers_fetch = (\<lambda>c n. if n < 2 then ok_response (JObj [(''status'', JStr ''running'')])
                                   else ok_response (JObj [(''status'', JStr ''finished'')])),
      containers_fetch_result = (\<lambda>c. ok_response (JObj [(''resultObject'', JStr ''[{}, {}]'')])),
      url_get = (\<lambda>u. NetworkError ''unreachable''),
      db_fault = (\<lambda>e. None)\<rparr>"

definition ex_query :: SalesNavQueryData where
  "ex_query = \<lparr>url = ''https://www.linkedin.com/sales/search/people'', cookie = ''sess123'',
                userId = ''someone''\<rparr>"

definition ex_user :: dict where
  "ex_user = [(''uid'', JStr ''u1'')]"

text \<open>Variations of the scenario, one for each stage that goes differently.\<close>

definition busy_world :: world where
  "busy_world = ex_world\<lparr>agents_fetch := (\<lambda>p n. ok_response (JObj [(''status'', JStr ''RUNNING'')]))\<rparr>"

definition offline_world :: world where
  "offline_world = ex_world\<lparr>agents_fetch := (\<lambda>p n. NetworkError ''Connection refused'')\<rparr>"

definition parallelism_world :: world where
  "parallelism_world =
     ex_world\<lparr>agents_launch := (\<lambda>p c u n. error_response 429 ''maxParallelismReached''
                                  (JObj [(''error'', JStr ''maxParallelismReached'')]))\<rparr>"

definition slow_world :: world where
  "slow_world = ex_world\<lparr>containers_fetch := (\<lambda>c n. ok_response (JObj [(''status'', JStr ''running'')]))\<rparr>"

definition broken_poll_world :: world where
  "broken_poll_world =
     ex_world\<lparr>containers_fetch := (\<lambda>c n. if n < 2 then ok_response (JObj [(''status'', JStr ''running'')])
                                        else error_response 502 ''Bad Gateway'' JNull)\<rparr>"

definition flaky_poll_world :: world where
  "flaky_poll_world =
     ex_world\<lparr>containers_fetch := (\<lambda>c n. if n < 2 then ok_response (JObj [(''status'', JStr ''running'')])
                                        else if n = 2 then NetworkError ''Connection reset''
                                        else ok_response (JObj [(''status'', JStr ''finished'')]))\<rparr>"

definition null_result_world :: world where
  "null_result_world =
     ex_world\<lparr>containers_fetch_result := (\<lambda>c. ok_response (JObj [(''resultObject'', JNull)]))\<rparr>"

definition null_string_world :: world where
  "null_string_world =
     ex_world\<lparr>containers_fetch_result := (\<lambda>c. ok_response (JObj [(''resultObject'', JStr ''null'')]))\<rparr>"

definition single_object_world :: world where
  "single_object_world =
     ex_world\<lparr>containers_fetch_result :=
                 (\<lambda>c. ok_response (JObj [(''resultObject'',
                        JObj [(''firstName'', JStr ''A''), (''lastName'', JStr ''B''),
                              (''CompanyUrl'', JStr ''x'')])]))\<rparr>"

definition indirect_world :: world where
  "indirect_world =
     ex_world\<lparr>containers_fetch_result :=
                 (\<lambda>c. ok_response (JObj [(''resultObject'',
                        JObj [(''jsonUrl'', JStr ''https://cache.example/result.json'')])])),
               url_get := (\<lambda>u. ok_response (JList []))\<rparr>"

definition flaky_agent_world :: world where
  "flaky_agent_world =
     ex_world\<lparr>agents_fetch := (\<lambda>p n. if n = 0 then ok_response (JObj [(''status'', JStr ''RUNNING'')])
                                    else if n = 1 then error_response 500 ''Internal Server Error'' JNull
                                    else NetworkError ''Connection refused'')\<rparr>"

definition object_string_world :: world where
  "object_string_world =
     ex_world\<lparr>containers_fetch_result := (\<lambda>c. ok_response (JObj [(''resultObject'', JStr ''{}'')]))\<rparr>"

section \<open>The library of the examples\<close>

lemma show_nat_500: "show_nat 500 = ''500''"
  by (simp add: show_nat.simps)

lemma ex_exc_str_500: "exc_str ex_lib (HTTPException 500 d) = ''500: '' @ d"
  by (simp add: ex_lib_def show_nat_500)

lemma ex_document_u1: "document_error ex_lib ''u1'' = None"
  by (simp add: ex_lib_def)

section \<open>Normalizing a record\<close>

lemma process_all_dicts: "process_all (map JObj items) = Inr (map process_profile items)"
  by (induction items) simp_all

text \<open>
  C8. The raw record \<^verbatim>\<open>{"firstName":"A","lastName":"B","CompanyUrl":"x"}\<close> normalizes to
  the record that has every declared field, with \<^verbatim>\<open>firstName\<close> A, \<^verbatim>\<open>lastName\<close> B,
  \<^verbatim>\<open>companyUrl\<close> x, \<^verbatim>\<open>sharedConnectionsCount\<close> 0 and every other field the empty string;
  the input key \<^verbatim>\<open>CompanyUrl\<close> is not a key of the result. For any raw record the keys of
  the result are exactly the declared fields, whatever the record has or lacks, and a list
  of raw records of any content is normalized record by record without an error.
\<close>

theorem process_profile_defaults:
  "process_profile [(''firstName'', JStr ''A''), (''lastName'', JStr ''B''), (''CompanyUrl'', JStr ''x'')]
     = [(''firstName'', JStr ''A''), (''lastName'', JStr ''B''), (''title'', JStr ''''),
        (''companyName'', JStr ''''), (''industry'', JStr ''''), (''companyLocation'', JStr ''''),
        (''profileLocation'', JStr ''''), (''connectionDegree'', JStr ''''),
        (''profileImageUrl'', JStr ''''), (''sharedConnectionsCount'', JNum 0),
        (''defaultProfileUrl'', JStr ''''), (''companyUrl'', JStr ''x'')]
   \<and> map fst (process_profile item) = profile_fields
   \<and> process_all (map JObj items) = Inr (map process_profile items)"
proof -
  have example:
    "process_profile [(''firstName'', JStr ''A''), (''lastName'', JStr ''B''), (''CompanyUrl'', JStr ''x'')]
       = [(''firstName'', JStr ''A''), (''lastName'', JStr ''B''), (''title'', JStr ''''),
          (''companyName'', JStr ''''), (''industry'', JStr ''''), (''companyLocation'', JStr ''''),
          (''profileLocation'', JStr ''''), (''connectionDegree'', JStr ''''),
          (''profileImageUrl'', JStr ''''), (''sharedConnectionsCount'', JNum 0),
          (''defaultProfileUrl'', JStr ''''), (''companyUrl'', JStr ''x'')]"
    by (simp add: process_profile_def get_default_def py_or_def)
  have keys: "map fst (process_profile item) = profile_fields"
    by (simp add: process_profile_def profile_fields_def)
  from example keys process_all_dicts show ?thesis by blast
qed

text \<open>
  C10. The normalized \<^verbatim>\<open>companyUrl\<close> is the value at \<^verbatim>\<open>CompanyUrl\<close> when that key is present
  with a value Python takes as true (for a string: a non-empty one), and otherwise the
  value at \<^verbatim>\<open>regularCompanyUrl\<close>, the empty string when that key is absent. So a non-empty
  string at \<^verbatim>\<open>CompanyUrl\<close> is the result; with \<^verbatim>\<open>CompanyUrl\<close> absent or the empty string
  the result is the value at \<^verbatim>\<open>regularCompanyUrl\<close>; and the record with \<^verbatim>\<open>CompanyUrl\<close> empty
  and \<^verbatim>\<open>regularCompanyUrl\<close> y normalizes to \<^verbatim>\<open>companyUrl\<close> y.
\<close>

theorem company_url_fallback:
  "map_of (process_profile item) ''companyUrl'' =
     Some (case map_of item ''CompanyUrl'' of
             Some v \<Rightarrow> if truthy v then v else get_default item ''regularCompanyUrl'' (JStr '''')
           | None \<Rightarrow> get_default item ''regularCompanyUrl'' (JStr ''''))
   \<and> (map_of item ''CompanyUrl'' = Some (JStr s) \<and> s \<noteq> [] \<longrightarrow>
        map_of (process_profile item) ''companyUrl'' = Some (JStr s))
   \<and> (map_of item ''CompanyUrl'' = None \<or> map_of item ''CompanyUrl'' = Some (JStr '''') \<longrightarrow>
        map_of (process_profile item) ''companyUrl''
          = Some (case map_of item ''regularCompanyUrl'' of Some v \<Rightarrow> v | None \<Rightarrow> JStr ''''))
   \<and> map_of (process_profile [(''CompanyUrl'', JStr ''''), (''regularCompanyUrl'', JStr ''y'')])
        ''companyUrl'' = Some (JStr ''y'')"
  by (auto simp add: process_profile_def get_default_def py_or_def split: option.splits)

theorem company_url_fallback_witness:
  "map_of [(''CompanyUrl'', JStr ''x''), (''regularCompanyUrl'', JStr ''y'')] ''CompanyUrl''
     = Some (JStr ''x'')
   \<and> ''x'' \<noteq> []
   \<and> map_of (process_profile [(''CompanyUrl'', JStr ''x''), (''regularCompanyUrl'', JStr ''y'')])
        ''companyUrl'' = Some (JStr ''x'')
   \<and> map_of [(''regularCompanyUrl'', JStr ''y'')] ''CompanyUrl'' = None
   \<and> map_of (process_profile [(''regularCompanyUrl'', JStr ''y'')]) ''companyUrl''
        = Some (JStr ''y'')"
  using company_url_fallback [of "[(''CompanyUrl'', JStr ''x''), (''regularCompanyUrl'', JStr ''y'')]" "''x''"]
        company_url_fallback [of "[(''regularCompanyUrl'', JStr ''y'')]" "''x''"]
  by (simp add: get_default_def)

section \<open>Acquiring a phantom\<close>

lemma fst_is_phantom_running: "fst (is_phantom_running w p n) = [AgentFetch p]"
  by (simp add: is_phantom_running_def)

lemma busy_trace_step:
  "a < b \<Longrightarrow> busy_trace p a b = AgentFetch p # sleep_unless_last a @ busy_trace p (a + 1) b"
  by (simp add: busy_trace_def upt_conv_Cons)

lemma busy_trace_end: "busy_trace p b b = []"
  by (simp add: busy_trace_def)

lemma wait_loop_step:
  assumes "attempt < max_retries" and "still_busy (is_phantom_running w p attempt)"
  shows "wait_loop w p attempt
           = prepend (AgentFetch p # sleep_unless_last attempt) (wait_loop w p (attempt + 1))"
proof -
  obtain res where run: "is_phantom_running w p attempt = ([AgentFetch p], res)"
    by (metis fst_is_phantom_running prod.collapse)
  with assms(2) have "res = Inr True \<or> (\<exists>c d. res = Inl (HTTPException c d))"
    by (auto simp add: still_busy_def split: sum.splits exn.splits)
  with assms(1) run show ?thesis
    by (subst wait_loop.simps) auto
qed

text \<open>
  A phantom busy at every attempt, an error response of the provider counting as busy:
  the budget is used up and the answer is \<^verbatim>\<open>False\<close>.
\<close>

lemma wait_loop_busy:
  assumes busy: "\<forall>n<max_retries. still_busy (is_phantom_running w p n)"
  shows "attempt \<le> max_retries \<Longrightarrow>
           wait_loop w p attempt = (busy_trace p attempt max_retries, Inr False)"
proof (induction "max_retries - attempt" arbitrary: attempt)
  case 0
  then have "attempt = max_retries" by simp
  then show ?case by (simp add: wait_loop.simps busy_trace_end)
next
  case (Suc k)
  then have lt: "attempt < max_retries" by simp
  have "wait_loop w p (attempt + 1) = (busy_trace p (attempt + 1) max_retries, Inr False)"
    using Suc lt by simp
  with lt busy show ?case
    by (simp add: wait_loop_step prepend_def busy_trace_step)
qed

lemma status_checks_busy_trace:
  "length (filter is_status_check (busy_trace p a b)) = b - a"
proof (induction "b - a" arbitrary: a)
  case 0
  then show ?case by (simp add: busy_trace_def)
next
  case (Suc k)
  then have lt: "a < b" by simp
  have "b - (a + 1) = k" using Suc by simp
  with Suc(1) [of "a + 1"]
  have "length (filter is_status_check (busy_trace p (a + 1) b)) = k"
    by simp
  then show ?case using Suc(2) lt
    by (simp add: busy_trace_step sleep_unless_last_def)
qed

lemma only_checks_busy_trace:
  "e \<in> set (busy_trace p a b) \<Longrightarrow> e = AgentFetch p \<or> e = Sleep retry_delay"
  by (auto simp add: busy_trace_def sleep_unless_last_def split: if_splits)

text \<open>A pool of any size, every phantom of it busy at every check.\<close>

lemma first_available_busy:
  assumes busy: "\<forall>p\<in>set ids. \<forall>n<max_retries. still_busy (is_phantom_running w p n)"
  shows "first_available w ids =
           (concat (map (\<lambda>p. busy_trace p 0 max_retries) ids),
            Inl (HTTPException 503 ''All phantoms are busy and maximum retry attempts reached''))"
  using busy
proof (induction ids)
  case Nil
  then show ?case by simp
next
  case (Cons p ids)
  then have "wait_for_phantom_availability w p = (busy_trace p 0 max_retries, Inr False)"
    by (simp add: wait_for_phantom_availability_def wait_loop_busy)
  with Cons show ?case by (simp add: prepend_def)
qed

lemma status_checks_pool:
  "length (filter is_status_check (concat (map (\<lambda>p. busy_trace p 0 max_retries) ids)))
     = length ids * max_retries"
  by (induction ids) (simp_all add: status_checks_busy_trace)

text \<open>
  C5. When every phantom of the pool reports \<^verbatim>\<open>RUNNING\<close> at each of its attempts,
  \<^verbatim>\<open>get_available_phantom\<close> raises the 503 "All phantoms are busy" after as many status
  checks as the pool size times \<^verbatim>\<open>max_retries\<close>, which is 15. The endpoint, when the
  request reaches the acquisition (the user has a \<^verbatim>\<open>uid\<close>, the API key is set and the
  \<^verbatim>\<open>uid\<close> names a document of \<^verbatim>\<open>users\<close>), raises the same 503, leaves the store as it
  was, and its trace is that of the acquisition: it has no launch, no poll, no result
  fetch and no write to the store.
\<close>

theorem all_workers_busy:
  assumes busy: "\<forall>p\<in>set phantom_ids. \<forall>n<max_retries. snd (is_phantom_running w p n) = Inr True"
    and uid: "map_of user ''uid'' = Some uid"
    and key: "PhantomBusterClient w = Inr ()"
    and doc: "document_error lib (py_str lib uid) = None"
  shows "snd (get_available_phantom w)
           = Inl (HTTPException 503 ''All phantoms are busy and maximum retry attempts reached'')
       \<and> length (filter is_status_check (fst (get_available_phantom w)))
           = length phantom_ids * max_retries
       \<and> length phantom_ids * max_retries = 15
       \<and> search_sales_navigator lib w st query_data user
           = (st, fst (get_available_phantom w),
              Inl (HTTPException 503 ''All phantoms are busy and maximum retry attempts reached''))
       \<and> filter is_launch (fst (get_available_phantom w)) = []
       \<and> filter is_poll (fst (get_available_phantom w)) = []
       \<and> filter is_normalize (fst (get_available_phantom w)) = []
       \<and> filter is_write (fst (get_available_phantom w)) = []"
proof -
  let ?ev = "concat (map (\<lambda>p. busy_trace p 0 max_retries) phantom_ids)"
  let ?err = "HTTPException 503 ''All phantoms are busy and maximum retry attempts reached''"
  have "\<forall>p\<in>set phantom_ids. \<forall>n<max_retries. still_busy (is_phantom_running w p n)"
    using busy by (simp add: still_busy_def)
  then have acquire: "get_available_phantom w = (?ev, Inl ?err)"
    unfolding get_available_phantom_def by (rule first_available_busy)
  have count: "length (filter is_status_check ?ev) = length phantom_ids * max_retries"
    by (rule status_checks_pool)
  have fifteen: "length phantom_ids * max_retries = 15"
    by (simp add: phantom_ids_def max_retries_def)
  have only: "e = AgentFetch p \<or> e = Sleep retry_delay"
    if "e \<in> set (busy_trace p 0 max_retries)" for e p
    using that by (rule only_checks_busy_trace)
  have members: "\<exists>p. e = AgentFetch p \<or> e = Sleep retry_delay" if "e \<in> set ?ev" for e
    using that only by auto
  have no_launch: "filter is_launch ?ev = []"
    unfolding filter_empty_conv using members by fastforce
  have no_poll: "filter is_poll ?ev = []"
    unfolding filter_empty_conv using members by fastforce
  have no_normalize: "filter is_normalize ?ev = []"
    unfolding filter_empty_conv using members by fastforce
  have no_write: "filter is_write ?ev = []"
    unfolding filter_empty_conv using members by fastforce
  have nonempty: "user \<noteq> []" using uid by auto
  have job: "run_job lib w query_data = (?ev, Inl ?err)"
    by (simp add: run_job_def bind_run_def acquire)
  have endpoint: "search_sales_navigator lib w st query_data user = (st, ?ev, Inl ?err)"
    by (simp add: search_sales_navigator_def Let_def nonempty uid key doc job reraise_def)
  from acquire count fifteen endpoint no_launch no_poll no_normalize no_write
  show ?thesis by simp
qed

theorem all_workers_busy_witness:
  "list_all (\<lambda>p. list_all (\<lambda>n. snd (is_phantom_running busy_world p n) = Inr True)
                       [0..<max_retries]) phantom_ids
   \<and> map_of ex_user ''uid'' = Some (JStr ''u1'')
   \<and> PhantomBusterClient busy_world = Inr ()
   \<and> document_error ex_lib (py_str ex_lib (JStr ''u1'')) = None
   \<and> length (filter is_status_check (fst (get_available_phantom busy_world))) = 15
   \<and> snd (snd (search_sales_navigator ex_lib busy_world Map.empty ex_query ex_user))
        = Inl (HTTPException 503 ''All phantoms are busy and maximum retry attempts reached'')"
proof -
  have busy: "\<forall>p\<in>set phantom_ids. \<forall>n<max_retries. snd (is_phantom_running busy_world p n) = Inr True"
    by (simp add: is_phantom_running_def busy_world_def ok_response_def get_def get_default_def)
  have uid: "map_of ex_user ''uid'' = Some (JStr ''u1'')"
    by (simp add: ex_user_def)
  have key: "PhantomBusterClient busy_world = Inr ()"
    by (simp add: PhantomBusterClient_def busy_world_def ex_world_def)
  have doc: "document_error ex_lib (py_str ex_lib (JStr ''u1'')) = None"
    by (simp add: ex_lib_def)
  from all_workers_busy [OF busy uid key doc, of Map.empty ex_query] busy uid key doc
  show ?thesis by (simp add: list_all_iff)
qed

text \<open>An error response of the provider at a status check counts as busy.\<close>

lemma error_response_still_busy:
  "agents_fetch w p n = Response r \<Longrightarrow> status_code r \<noteq> 200 \<Longrightarrow>
     still_busy (is_phantom_running w p n)"
  by (simp add: still_busy_def is_phantom_running_def)

lemma wait_loop_transport_error:
  assumes k: "k < max_retries"
    and before: "\<forall>n<k. still_busy (is_phantom_running w p n)"
    and err: "agents_fetch w p k = NetworkError m"
  shows "a \<le> k \<Longrightarrow>
           wait_loop w p a = (busy_trace p a k @ [AgentFetch p], Inl (RequestException m))"
proof (induction "k - a" arbitrary: a)
  case 0
  then have "a = k" by simp
  with k err show ?case
    by (subst wait_loop.simps) (simp add: is_phantom_running_def busy_trace_end)
next
  case (Suc j)
  then have lt: "a < k" by simp
  then have "wait_loop w p (a + 1)
               = (busy_trace p (a + 1) k @ [AgentFetch p], Inl (RequestException m))"
    using Suc by simp
  moreover have "a < max_retries" using lt k by simp
  moreover have "still_busy (is_phantom_running w p a)" using before lt by simp
  ultimately show ?case using lt
    by (simp add: wait_loop_step prepend_def busy_trace_step)
qed

text \<open>
  C4. What the code does with a transport error at a status check: when the checks
  before attempt \<open>k\<close> of a phantom went on (busy, or an error response of the provider) and
  \<^verbatim>\<open>requests.get\<close> raises at attempt \<open>k\<close>, within the budget, then
  \<^verbatim>\<open>wait_for_phantom_availability\<close> raises that exception after \<open>k + 1\<close> checks, with no
  sleep and no further attempt, and \<^verbatim>\<open>get_available_phantom\<close> raises it without trying the
  phantoms that follow. The transport error is not counted as busy.
\<close>

theorem transport_error_aborts_acquisition:
  assumes "k < max_retries"
    and "\<forall>n<k. still_busy (is_phantom_running w p n)"
    and "agents_fetch w p k = NetworkError m"
  shows "wait_for_phantom_availability w p
           = (busy_trace p 0 k @ [AgentFetch p], Inl (RequestException m))
       \<and> first_available w (p # rest)
           = (busy_trace p 0 k @ [AgentFetch p], Inl (RequestException m))
       \<and> length (filter is_status_check (busy_trace p 0 k @ [AgentFetch p])) = k + 1
       \<and> \<not> still_busy (is_phantom_running w p k)"
proof -
  have run: "wait_for_phantom_availability w p
               = (busy_trace p 0 k @ [AgentFetch p], Inl (RequestException m))"
    unfolding wait_for_phantom_availability_def
    using assms by (simp add: wait_loop_transport_error)
  then have pool: "first_available w (p # rest)
               = (busy_trace p 0 k @ [AgentFetch p], Inl (RequestException m))"
    by simp
  have count: "length (filter is_status_check (busy_trace p 0 k @ [AgentFetch p])) = k + 1"
    by (simp add: status_checks_busy_trace)
  have "\<not> still_busy (is_phantom_running w p k)"
    using assms(3) by (simp add: still_busy_def is_phantom_running_def)
  with run pool count show ?thesis by simp
qed

theorem transport_error_aborts_acquisition_witness:
  "(2::nat) < max_retries
   \<and> list_all (\<lambda>n. still_busy (is_phantom_running flaky_agent_world ''2696753432671290'' n))
         [0..<2]
   \<and> agents_fetch flaky_agent_world ''2696753432671290'' 2 = NetworkError ''Connection refused''
   \<and> get_available_phantom flaky_agent_world
       = ([AgentFetch ''2696753432671290'', Sleep 60, AgentFetch ''2696753432671290'', Sleep 60,
           AgentFetch ''2696753432671290''],
          Inl (RequestException ''Connection refused''))"
proof -
  have k: "(2::nat) < max_retries" by (simp add: max_retries_def)
  have before: "\<forall>n<2. still_busy (is_phantom_running flaky_agent_world ''2696753432671290'' n)"
    by (simp add: still_busy_def is_phantom_running_def flaky_agent_world_def ok_response_def
        error_response_def get_def get_default_def)
  have err: "agents_fetch flaky_agent_world ''2696753432671290'' 2 = NetworkError ''Connection refused''"
    by (simp add: flaky_agent_world_def)
  have trace: "busy_trace ''2696753432671290'' 0 2
                 = [AgentFetch ''2696753432671290'', Sleep 60, AgentFetch ''2696753432671290'', Sleep 60]"
    by (simp add: busy_trace_def sleep_unless_last_def max_retries_def retry_delay_def upt_conv_Cons)
  from transport_error_aborts_acquisition [OF k before err,
      of "[''2786592566218024'', ''8109199544661391'']"] k before err trace
  show ?thesis by (simp add: get_available_phantom_def phantom_ids_def list_all_iff)
qed

section \<open>Launching\<close>

lemma launch_trace_step:
  "a < b \<Longrightarrow> launch_trace p c u a b
     = AgentLaunch p c u # sleep_unless_last a @ launch_trace p c u (a + 1) b"
  by (simp add: launch_trace_def upt_conv_Cons)

lemma launch_trace_end: "launch_trace p c u b b = []"
  by (simp add: launch_trace_def)

lemma launches_launch_trace: "length (filter is_launch (launch_trace p c u a b)) = b - a"
proof (induction "b - a" arbitrary: a)
  case 0
  then show ?case by (simp add: launch_trace_def)
next
  case (Suc k)
  then have lt: "a < b" by simp
  have "b - (a + 1) = k" using Suc by simp
  with Suc(1) [of "a + 1"]
  have "length (filter is_launch (launch_trace p c u (a + 1) b)) = k"
    by simp
  then show ?case using Suc(2) lt
    by (simp add: launch_trace_step sleep_unless_last_def)
qed

text \<open>The last attempt of the budget, answered with "maximum parallelism reached".\<close>

lemma trigger_loop_last_limited:
  assumes "agents_launch w p c u (max_retries - 1) = Response r"
    and "status_code r \<noteq> 200"
  shows "trigger_loop lib w p c u (max_retries - 1)
           = ([AgentLaunch p c u], Inl (HTTPException 500 (''Error launching phantom: '' @ resp_text r)))"
  using assms by (subst trigger_loop.simps) (simp add: max_retries_def)

lemma trigger_loop_limited_step:
  assumes "attempt < max_retries - 1"
    and "parallelism_limited lib (agents_launch w p c u attempt)"
  shows "trigger_loop lib w p c u attempt
           = prepend [AgentLaunch p c u, Sleep retry_delay] (trigger_loop lib w p c u (attempt + 1))"
  using assms
  by (subst trigger_loop.simps) (auto simp add: parallelism_limited_def split: reply.splits)

lemma trigger_loop_limited:
  assumes limited: "\<forall>n<max_retries. parallelism_limited lib (agents_launch w p c u n)"
    and last: "agents_launch w p c u (max_retries - 1) = Response r"
  shows "a < max_retries \<Longrightarrow>
           trigger_loop lib w p c u a
             = (launch_trace p c u a max_retries,
                Inl (HTTPException 500 (''Error launching phantom: '' @ resp_text r)))"
proof (induction "max_retries - 1 - a" arbitrary: a)
  case 0
  then have a: "a = max_retries - 1" by simp
  have "parallelism_limited lib (agents_launch w p c u (max_retries - 1))"
    using limited by (simp add: max_retries_def)
  with last have "status_code r \<noteq> 200" by (simp add: parallelism_limited_def)
  with last have "trigger_loop lib w p c u (max_retries - 1)
           = ([AgentLaunch p c u], Inl (HTTPException 500 (''Error launching phantom: '' @ resp_text r)))"
    by (rule trigger_loop_last_limited)
  moreover have "launch_trace p c u (max_retries - 1) max_retries = [AgentLaunch p c u]"
    by (simp add: launch_trace_def sleep_unless_last_def max_retries_def)
  ultimately show ?case using a by simp
next
  case (Suc k)
  then have lt: "a < max_retries - 1" by simp
  then have "trigger_loop lib w p c u (a + 1)
             = (launch_trace p c u (a + 1) max_retries,
                Inl (HTTPException 500 (''Error launching phantom: '' @ resp_text r)))"
    using Suc by simp
  moreover have "parallelism_limited lib (agents_launch w p c u a)"
    using limited lt by simp
  moreover have "sleep_unless_last a = [Sleep retry_delay]"
    using lt by (simp add: sleep_unless_last_def)
  ultimately show ?case using lt
    by (simp add: trigger_loop_limited_step prepend_def launch_trace_step)
qed

text \<open>
  Within the loop every path of the last attempt returns or raises, so the 503 after the
  loop is never raised.
\<close>

lemma trigger_loop_never_503:
  "a < max_retries \<Longrightarrow> snd (trigger_loop lib w p c u a) \<noteq> Inl (HTTPException 503 d)"
proof (induction "max_retries - 1 - a" arbitrary: a)
  case 0
  then have "a = max_retries - 1" by simp
  then show ?case
    by (subst trigger_loop.simps)
       (simp add: max_retries_def split: reply.splits json.splits option.splits)
next
  case (Suc k)
  then have lt: "a < max_retries - 1" by simp
  then have "snd (trigger_loop lib w p c u (a + 1)) \<noteq> Inl (HTTPException 503 d)"
    using Suc by simp
  moreover have "a < max_retries" using lt by simp
  ultimately show ?case
    by (subst trigger_loop.simps)
       (simp add: prepend_def split: reply.splits json.splits option.splits)
qed

text \<open>
  C1. What the code does when every launch attempt is answered with "maximum parallelism
  reached": the first four attempts sleep and go on, and the fifth, for which the
  \<^verbatim>\<open>continue\<close> is not taken, raises the 500 "Error launching phantom" with the text of its
  response. Five launches are made, and the result is not the 503 "Maximum retry attempts
  reached while launching phantom".
\<close>

theorem parallelism_exhausted_raises_500:
  assumes "\<forall>n<max_retries. parallelism_limited lib (agents_launch w p c u n)"
  shows "\<exists>r. agents_launch w p c u (max_retries - 1) = Response r
           \<and> trigger_phantom lib w p c u
               = (launch_trace p c u 0 max_retries,
                  Inl (HTTPException 500 (''Error launching phantom: '' @ resp_text r)))
           \<and> length (filter is_launch (launch_trace p c u 0 max_retries)) = 5
           \<and> snd (trigger_phantom lib w p c u)
               \<noteq> Inl (HTTPException 503 ''Maximum retry attempts reached while launching phantom'')"
proof -
  have "parallelism_limited lib (agents_launch w p c u (max_retries - 1))"
    using assms by (simp add: max_retries_def)
  then obtain r where last: "agents_launch w p c u (max_retries - 1) = Response r"
    by (auto simp add: parallelism_limited_def split: reply.splits)
  have run: "trigger_phantom lib w p c u
               = (launch_trace p c u 0 max_retries,
                  Inl (HTTPException 500 (''Error launching phantom: '' @ resp_text r)))"
    unfolding trigger_phantom_def
    using assms last by (rule trigger_loop_limited) (simp add: max_retries_def)
  have count: "length (filter is_launch (launch_trace p c u 0 max_retries)) = 5"
    by (simp add: launches_launch_trace max_retries_def)
  from last run count show ?thesis by simp
qed

theorem parallelism_exhausted_raises_500_witness:
  "list_all (\<lambda>n. parallelism_limited ex_lib
        (agents_launch parallelism_world ''2696753432671290'' ''sess123'' ''u'' n))
      [0..<max_retries]
   \<and> snd (trigger_phantom ex_lib parallelism_world ''2696753432671290'' ''sess123'' ''u'')
       = Inl (HTTPException 500 ''Error launching phantom: maxParallelismReached'')"
proof -
  have limited: "\<forall>n<max_retries. parallelism_limited ex_lib
        (agents_launch parallelism_world ''2696753432671290'' ''sess123'' ''u'' n)"
    by (simp add: parallelism_limited_def parallelism_world_def error_response_def ex_lib_def)
  from parallelism_exhausted_raises_500 [OF limited] limited
  show ?thesis by (auto simp add: parallelism_world_def error_response_def list_all_iff)
qed

section \<open>Polling the container\<close>

lemma poll_trace_step:
  "a < b \<Longrightarrow> poll_trace c a b = ContainerFetch c # Sleep 10 # poll_trace c (a + 1) b"
  by (simp add: poll_trace_def upt_conv_Cons)

lemma poll_trace_end: "poll_trace c b b = []"
  by (simp add: poll_trace_def)

lemma polls_poll_trace: "length (filter is_poll (poll_trace c a b)) = b - a"
proof (induction "b - a" arbitrary: a)
  case 0
  then show ?case by (simp add: poll_trace_def)
next
  case (Suc k)
  then have lt: "a < b" by simp
  have "b - (a + 1) = k" using Suc by simp
  with Suc(1) [of "a + 1"] have "length (filter is_poll (poll_trace c (a + 1) b)) = k"
    by simp
  then show ?case using Suc(2) lt by (simp add: poll_trace_step)
qed

lemma check_loop_pending:
  assumes "retry_count < container_max_retries"
    and "pending_poll (containers_fetch w c retry_count)"
  shows "check_loop lib w c retry_count
           = (case check_loop lib w c (retry_count + 1) of
                (ev, res) \<Rightarrow> ([ContainerFetch c, Sleep 10] @ ev, res))"
  using assms
  by (subst check_loop.simps)
     (auto simp add: pending_poll_def split: reply.splits json.splits)

lemma check_loop_finished:
  assumes "retry_count < container_max_retries"
    and "finished_poll (containers_fetch w c retry_count)"
  shows "check_loop lib w c retry_count = ([ContainerFetch c], retry_count, Inr ())"
  using assms
  by (subst check_loop.simps)
     (auto simp add: finished_poll_def split: reply.splits json.splits)

lemma check_loop_error_response:
  assumes "retry_count < container_max_retries"
    and "containers_fetch w c retry_count = Response r"
    and "status_code r \<noteq> 200"
  shows "check_loop lib w c retry_count
           = ([ContainerFetch c], retry_count,
              Inl (HTTPException 500 (''Failed to check container status: '' @ resp_text r)))"
  using assms by (subst check_loop.simps) simp

lemma check_loop_exhausted:
  "check_loop lib w c container_max_retries
     = ([], container_max_retries, Inl (HTTPException 504 ''Container execution timed out''))"
  by (subst check_loop.simps) simp

text \<open>Polls \<open>a\<close> to \<open>b - 1\<close> pending: the loop arrives at \<open>retry_count = b\<close>.\<close>

lemma check_loop_pending_until:
  assumes pending: "\<forall>n<b. pending_poll (containers_fetch w c n)"
    and bound: "b \<le> container_max_retries"
  shows "a \<le> b \<Longrightarrow>
           check_loop lib w c a
             = (case check_loop lib w c b of (ev, res) \<Rightarrow> (poll_trace c a b @ ev, res))"
proof (induction "b - a" arbitrary: a)
  case 0
  then have "a = b" by simp
  then show ?case by (simp add: poll_trace_end split: prod.splits)
next
  case (Suc k)
  then have lt: "a < b" by simp
  then have later: "check_loop lib w c (a + 1)
             = (case check_loop lib w c b of (ev, res) \<Rightarrow> (poll_trace c (a + 1) b @ ev, res))"
    using Suc by simp
  have "a < container_max_retries" using lt bound by simp
  moreover have "pending_poll (containers_fetch w c a)" using pending lt by simp
  ultimately have "check_loop lib w c a
           = (case check_loop lib w c (a + 1) of
                (ev, res) \<Rightarrow> ([ContainerFetch c, Sleep 10] @ ev, res))"
    by (rule check_loop_pending)
  with later lt show ?case
    by (simp add: poll_trace_step split: prod.splits)
qed

lemma check_loop_retry_count: "retry_count \<le> fst (snd (check_loop lib w c retry_count))"
proof (induction "container_max_retries - retry_count" arbitrary: retry_count)
  case 0
  then show ?case by (subst check_loop.simps) simp
next
  case (Suc k)
  then have "retry_count + 1 \<le> fst (snd (check_loop lib w c (retry_count + 1)))"
    by simp
  then show ?case
    by (subst check_loop.simps)
       (auto split: reply.splits json.splits prod.splits)
qed
text \<open>
  C6. When the poll at position \<open>k\<close> (counting from 1, \<open>k\<close> at most 30) reports
  \<^verbatim>\<open>finished\<close> and the polls before it report no terminal status, then
  \<^verbatim>\<open>check_container_status\<close> returns normally and has made exactly \<open>k\<close> status checks. When
  none of the first 30 polls reports a terminal status, it raises the 504 "Container
  execution timed out" after 30 status checks. A poll whose request raised a transport
  error counts among those without a terminal status.
\<close>

theorem await_completion:
  "(0 < k \<and> k \<le> 30
      \<and> (\<forall>n<k - 1. pending_poll (containers_fetch w c n))
      \<and> finished_poll (containers_fetch w c (k - 1))
    \<longrightarrow> check_container_status lib w c = (poll_trace c 0 (k - 1) @ [ContainerFetch c], Inr ())
        \<and> length (filter is_poll (fst (check_container_status lib w c))) = k)
   \<and> ((\<forall>n<30. pending_poll (containers_fetch w c n))
    \<longrightarrow> check_container_status lib w c
          = (poll_trace c 0 30, Inl (HTTPException 504 ''Container execution timed out''))
        \<and> length (filter is_poll (fst (check_container_status lib w c))) = 30)"
proof (intro conjI impI)
  assume h: "0 < k \<and> k \<le> 30
      \<and> (\<forall>n<k - 1. pending_poll (containers_fetch w c n))
      \<and> finished_poll (containers_fetch w c (k - 1))"
  then have "0 < k" and "k \<le> 30" by simp_all
  then have lt: "k - 1 < container_max_retries"
    by (simp add: container_max_retries_def)
  with h have last: "check_loop lib w c (k - 1) = ([ContainerFetch c], k - 1, Inr ())"
    by (simp add: check_loop_finished)
  have "check_loop lib w c 0
          = (case check_loop lib w c (k - 1) of (ev, res) \<Rightarrow> (poll_trace c 0 (k - 1) @ ev, res))"
    using h lt by (intro check_loop_pending_until) simp_all
  with last show run: "check_container_status lib w c
                         = (poll_trace c 0 (k - 1) @ [ContainerFetch c], Inr ())"
    by (simp add: check_container_status_def)
  show "length (filter is_poll (fst (check_container_status lib w c))) = k"
    using h by (simp add: run polls_poll_trace)
next
  assume h: "\<forall>n<30. pending_poll (containers_fetch w c n)"
  have "check_loop lib w c 0
          = (case check_loop lib w c container_max_retries of
               (ev, res) \<Rightarrow> (poll_trace c 0 container_max_retries @ ev, res))"
    using h by (intro check_loop_pending_until) (simp_all add: container_max_retries_def)
  then show run: "check_container_status lib w c
          = (poll_trace c 0 30, Inl (HTTPException 504 ''Container execution timed out''))"
    by (simp add: check_container_status_def check_loop_exhausted)
       (simp add: container_max_retries_def)
  show "length (filter is_poll (fst (check_container_status lib w c))) = 30"
    by (simp add: run polls_poll_trace)
qed

theorem await_completion_witness:
  "(0::nat) < 3 \<and> (3::nat) \<le> 30
   \<and> list_all (\<lambda>n. pending_poll (containers_fetch ex_world (JStr ''J1'') n)) [0..<3 - 1]
   \<and> finished_poll (containers_fetch ex_world (JStr ''J1'') (3 - 1))
   \<and> check_container_status ex_lib ex_world (JStr ''J1'')
       = ([ContainerFetch (JStr ''J1''), Sleep 10, ContainerFetch (JStr ''J1''), Sleep 10,
           ContainerFetch (JStr ''J1'')], Inr ())
   \<and> list_all (\<lambda>n. pending_poll (containers_fetch slow_world (JStr ''J1'') n)) [0..<30]
   \<and> snd (check_container_status ex_lib slow_world (JStr ''J1''))
       = Inl (HTTPException 504 ''Container execution timed out'')
   \<and> length (filter is_poll (fst (check_container_status ex_lib slow_world (JStr ''J1'')))) = 30"
proof -
  have pending: "\<forall>n<3 - 1. pending_poll (containers_fetch ex_world (JStr ''J1'') n)"
    by (simp add: pending_poll_def ex_world_def ok_response_def get_def get_default_def)
  have finished: "finished_poll (containers_fetch ex_world (JStr ''J1'') (3 - 1))"
    by (simp add: finished_poll_def ex_world_def ok_response_def get_def get_default_def)
  have slow: "\<forall>n<30. pending_poll (containers_fetch slow_world (JStr ''J1'') n)"
    by (simp add: pending_poll_def slow_world_def ok_response_def get_def get_default_def)
  have trace: "poll_trace (JStr ''J1'') 0 (3 - 1)
                 = [ContainerFetch (JStr ''J1''), Sleep 10, ContainerFetch (JStr ''J1''), Sleep 10]"
    by (simp add: poll_trace_def upt_conv_Cons)
  have completes: "check_container_status ex_lib ex_world (JStr ''J1'')
                = (poll_trace (JStr ''J1'') 0 (3 - 1) @ [ContainerFetch (JStr ''J1'')], Inr ())"
    using await_completion [of 3 ex_world "JStr ''J1''" ex_lib] pending finished by simp
  have timeout: "check_container_status ex_lib slow_world (JStr ''J1'')
                   = (poll_trace (JStr ''J1'') 0 30,
                      Inl (HTTPException 504 ''Container execution timed out''))
                 \<and> length (filter is_poll (fst (check_container_status ex_lib slow_world (JStr ''J1''))))
                   = 30"
    using await_completion [of 3 slow_world "JStr ''J1''" ex_lib] slow by blast
  from completes trace
  have completes': "check_container_status ex_lib ex_world (JStr ''J1'')
       = ([ContainerFetch (JStr ''J1''), Sleep 10, ContainerFetch (JStr ''J1''), Sleep 10,
           ContainerFetch (JStr ''J1'')], Inr ())"
    by simp
  from timeout
  have timeout': "snd (check_container_status ex_lib slow_world (JStr ''J1''))
       = Inl (HTTPException 504 ''Container execution timed out'')"
    by simp
  have pending': "list_all (\<lambda>n. pending_poll (containers_fetch ex_world (JStr ''J1'') n)) [0..<3 - 1]"
    using pending by (simp add: list_all_iff)
  have slow': "list_all (\<lambda>n. pending_poll (containers_fetch slow_world (JStr ''J1'') n)) [0..<30]"
    using slow by (simp add: list_all_iff)
  have "(0::nat) < 3" and "(3::nat) \<le> 30" by simp_all
  with pending' finished completes' slow' timeout' timeout
  show ?thesis by blast
qed

text \<open>
  C9. With the polls before poll \<open>j\<close> pending and \<open>j\<close> within the budget of 30: if
  poll \<open>j\<close> is answered with a status code other than 200, the loop raises the 500 "Failed
  to check container status" at once, after \<open>j + 1\<close> status checks, with no sleep, and
  \<^verbatim>\<open>retry_count\<close> is still \<open>j\<close>, so the failed check took nothing from the budget. If
  instead the request of poll \<open>j\<close> raises a transport error, the loop sleeps and goes on as
  the loop from \<^verbatim>\<open>retry_count\<close> \<open>j + 1\<close>: one attempt is used and polling continues.
\<close>

theorem poll_error_response_aborts:
  assumes "j < 30" and "\<forall>n<j. pending_poll (containers_fetch w c n)"
  shows "(containers_fetch w c j = Response r \<and> status_code r \<noteq> 200 \<longrightarrow>
            check_loop lib w c 0
              = (poll_trace c 0 j @ [ContainerFetch c], j,
                 Inl (HTTPException 500 (''Failed to check container status: '' @ resp_text r)))
          \<and> length (filter is_poll (poll_trace c 0 j @ [ContainerFetch c])) = j + 1)
       \<and> (containers_fetch w c j = NetworkError m \<longrightarrow>
            check_loop lib w c 0
              = (case check_loop lib w c (j + 1) of
                   (ev, res) \<Rightarrow> (poll_trace c 0 (j + 1) @ ev, res))
          \<and> j + 1 \<le> fst (snd (check_loop lib w c 0)))"
proof (intro conjI impI)
  have bound: "j < container_max_retries"
    using assms(1) by (simp add: container_max_retries_def)
  have upto: "check_loop lib w c 0
          = (case check_loop lib w c j of (ev, res) \<Rightarrow> (poll_trace c 0 j @ ev, res))"
    using assms(2) bound by (intro check_loop_pending_until) simp_all
  {
    assume h: "containers_fetch w c j = Response r \<and> status_code r \<noteq> 200"
    with bound have "check_loop lib w c j
           = ([ContainerFetch c], j,
              Inl (HTTPException 500 (''Failed to check container status: '' @ resp_text r)))"
      by (simp add: check_loop_error_response)
    with upto show "check_loop lib w c 0
              = (poll_trace c 0 j @ [ContainerFetch c], j,
                 Inl (HTTPException 500 (''Failed to check container status: '' @ resp_text r)))"
      by simp
    show "length (filter is_poll (poll_trace c 0 j @ [ContainerFetch c])) = j + 1"
      by (simp add: polls_poll_trace)
  }
  {
    assume h: "containers_fetch w c j = NetworkError m"
    then have "\<forall>n<j + 1. pending_poll (containers_fetch w c n)"
      using assms(2) by (auto simp add: pending_poll_def less_Suc_eq)
    then show run: "check_loop lib w c 0
              = (case check_loop lib w c (j + 1) of
                   (ev, res) \<Rightarrow> (poll_trace c 0 (j + 1) @ ev, res))"
      using bound by (intro check_loop_pending_until) simp_all
    show "j + 1 \<le> fst (snd (check_loop lib w c 0))"
      using check_loop_retry_count [of "j + 1" lib w c]
      by (auto simp add: run split: prod.splits)
  }
qed

theorem poll_error_response_aborts_witness:
  "(2::nat) < 30
   \<and> list_all (\<lambda>n. pending_poll (containers_fetch broken_poll_world (JStr ''J1'') n)) [0..<2]
   \<and> containers_fetch broken_poll_world (JStr ''J1'') 2
       = Response \<lparr>status_code = 502, resp_text = ''Bad Gateway'', json_value = JNull\<rparr>
   \<and> check_loop ex_lib broken_poll_world (JStr ''J1'') 0
       = ([ContainerFetch (JStr ''J1''), Sleep 10, ContainerFetch (JStr ''J1''), Sleep 10,
           ContainerFetch (JStr ''J1'')], 2,
          Inl (HTTPException 500 ''Failed to check container status: Bad Gateway''))
   \<and> list_all (\<lambda>n. pending_poll (containers_fetch flaky_poll_world (JStr ''J1'') n)) [0..<2]
   \<and> containers_fetch flaky_poll_world (JStr ''J1'') 2 = NetworkError ''Connection reset''
   \<and> 2 + 1 \<le> fst (snd (check_loop ex_lib flaky_poll_world (JStr ''J1'') 0))"
proof -
  have j: "(2::nat) < 30" by simp
  have broken: "\<forall>n<2. pending_poll (containers_fetch broken_poll_world (JStr ''J1'') n)"
    by (simp add: pending_poll_def broken_poll_world_def ok_response_def get_def get_default_def)
  have bad: "containers_fetch broken_poll_world (JStr ''J1'') 2
       = Response \<lparr>status_code = 502, resp_text = ''Bad Gateway'', json_value = JNull\<rparr>"
    by (simp add: broken_poll_world_def error_response_def)
  have flaky: "\<forall>n<2. pending_poll (containers_fetch flaky_poll_world (JStr ''J1'') n)"
    by (simp add: pending_poll_def flaky_poll_world_def ok_response_def get_def get_default_def)
  have reset: "containers_fetch flaky_poll_world (JStr ''J1'') 2 = NetworkError ''Connection reset''"
    by (simp add: flaky_poll_world_def)
  have trace: "poll_trace (JStr ''J1'') 0 2
                 = [ContainerFetch (JStr ''J1''), Sleep 10, ContainerFetch (JStr ''J1''), Sleep 10]"
    by (simp add: poll_trace_def upt_conv_Cons)
  have aborts: "check_loop ex_lib broken_poll_world (JStr ''J1'') 0
       = (poll_trace (JStr ''J1'') 0 2 @ [ContainerFetch (JStr ''J1'')], 2,
          Inl (HTTPException 500 (''Failed to check container status: ''
             @ resp_text \<lparr>status_code = 502, resp_text = ''Bad Gateway'', json_value = JNull\<rparr>)))"
    using poll_error_response_aborts [OF j broken, of
         "\<lparr>status_code = 502, resp_text = ''Bad Gateway'', json_value = JNull\<rparr>" ex_lib
         "''Connection reset''"] bad
    by simp
  have aborts': "check_loop ex_lib broken_poll_world (JStr ''J1'') 0
       = ([ContainerFetch (JStr ''J1''), Sleep 10, ContainerFetch (JStr ''J1''), Sleep 10,
           ContainerFetch (JStr ''J1'')], 2,
          Inl (HTTPException 500 ''Failed to check container status: Bad Gateway''))"
    using aborts trace by simp
  have goes_on: "2 + 1 \<le> fst (snd (check_loop ex_lib flaky_poll_world (JStr ''J1'') 0))"
    using poll_error_response_aborts [OF j flaky, of
         "\<lparr>status_code = 502, resp_text = ''Bad Gateway'', json_value = JNull\<rparr>" ex_lib
         "''Connection reset''"] reset
    by blast
  have broken': "list_all (\<lambda>n. pending_poll (containers_fetch broken_poll_world (JStr ''J1'') n)) [0..<2]"
    using broken by (simp add: list_all_iff)
  have flaky': "list_all (\<lambda>n. pending_poll (containers_fetch flaky_poll_world (JStr ''J1'') n)) [0..<2]"
    using flaky by (simp add: list_all_iff)
  from j broken' bad aborts' flaky' reset goes_on
  show ?thesis by blast
qed

section \<open>Fetching and cleaning the result\<close>

text \<open>The three steps on a result that needs no fetch from another URL.\<close>

lemma follow_json_url_plain:
  "map_of item ''jsonUrl'' = None \<Longrightarrow> follow_json_url w (JObj item) = ([], Inr (JObj item))"
  by (simp add: follow_json_url_def)

lemma to_profiles_object: "to_profiles (JObj item) = ([], Inr [process_profile item])"
  by (simp add: to_profiles_def)

lemma to_profiles_null: "to_profiles JNull = ([], Inr [])"
  by (simp add: to_profiles_def)

lemma fetch_ok:
  assumes "containers_fetch_result w c = Response r" and "status_code r = 200"
  shows "fetch_and_clean_data lib w c =
           prepend [ResultFetch c]
             (case bind_run (read_result lib (json_value r))
                     (\<lambda>data. bind_run (follow_json_url w data) to_profiles) of
                (ev, Inl e) \<Rightarrow>
                  (ev, Inl (HTTPException 500 (''Error processing data: '' @ exc_str lib e)))
              | (ev, Inr profiles) \<Rightarrow> (ev, Inr profiles))"
  by (simp only: fetch_and_clean_data_def assms reply.case simp_thms if_False)

text \<open>
  C2, as the code has it. A result payload whose \<^verbatim>\<open>resultObject\<close> is \<^verbatim>\<open>null\<close> (or absent)
  makes \<^verbatim>\<open>fetch_and_clean_data\<close> raise a 500: the "No data received from PhantomBuster" of
  the guard, wrapped by the handler of the \<^verbatim>\<open>try\<close>. The empty list is returned, with no
  error, when \<^verbatim>\<open>resultObject\<close> is a string that decodes to \<^verbatim>\<open>null\<close>.
\<close>

theorem null_result_field:
  assumes "containers_fetch_result w c = Response r"
    and "status_code r = 200"
    and "json_value r = JObj d"
  shows "(get d ''resultObject'' = JNull \<longrightarrow>
            fetch_and_clean_data lib w c
              = ([ResultFetch c],
                 Inl (HTTPException 500 (''Error processing data: ''
                    @ exc_str lib (HTTPException 500 ''No data received from PhantomBuster'')))))
       \<and> (get d ''resultObject'' = JStr s \<and> json_loads lib s = Some JNull \<longrightarrow>
            fetch_and_clean_data lib w c = ([ResultFetch c], Inr []))"
proof (intro conjI impI)
  assume "get d ''resultObject'' = JNull"
  then have "read_result lib (json_value r)
               = ([], Inl (HTTPException 500 ''No data received from PhantomBuster''))"
    using assms(3) by (simp add: read_result_def)
  then show "fetch_and_clean_data lib w c
              = ([ResultFetch c],
                 Inl (HTTPException 500 (''Error processing data: ''
                    @ exc_str lib (HTTPException 500 ''No data received from PhantomBuster''))))"
    using assms(1,2) by (simp add: fetch_ok bind_run_def prepend_def)
next
  assume "get d ''resultObject'' = JStr s \<and> json_loads lib s = Some JNull"
  then have "read_result lib (json_value r) = ([], Inr JNull)"
    using assms(3) by (simp add: read_result_def)
  moreover have "follow_json_url w JNull = ([], Inr JNull)"
    by (simp add: follow_json_url_def)
  ultimately show "fetch_and_clean_data lib w c = ([ResultFetch c], Inr [])"
    using assms(1,2) by (simp add: fetch_ok bind_run_def prepend_def to_profiles_null)
qed

theorem null_result_field_witness:
  "containers_fetch_result null_result_world (JStr ''J1'')
     = Response \<lparr>status_code = 200, resp_text = '''', json_value = JObj [(''resultObject'', JNull)]\<rparr>
   \<and> get [(''resultObject'', JNull)] ''resultObject'' = JNull
   \<and> fetch_and_clean_data ex_lib null_result_world (JStr ''J1'')
       = ([ResultFetch (JStr ''J1'')],
          Inl (HTTPException 500
                 ''Error processing data: 500: No data received from PhantomBuster''))
   \<and> containers_fetch_result null_string_world (JStr ''J1'')
     = Response \<lparr>status_code = 200, resp_text = '''',
                 json_value = JObj [(''resultObject'', JStr ''null'')]\<rparr>
   \<and> get [(''resultObject'', JStr ''null'')] ''resultObject'' = JStr ''null''
   \<and> json_loads ex_lib ''null'' = Some JNull
   \<and> fetch_and_clean_data ex_lib null_string_world (JStr ''J1'') = ([ResultFetch (JStr ''J1'')], Inr [])"
proof -
  let ?null = "\<lparr>status_code = 200, resp_text = '''', json_value = JObj [(''resultObject'', JNull)]\<rparr>"
  let ?str = "\<lparr>status_code = 200, resp_text = '''',
               json_value = JObj [(''resultObject'', JStr ''null'')]\<rparr>"
  have r1: "containers_fetch_result null_result_world (JStr ''J1'') = Response ?null"
    by (simp add: null_result_world_def ok_response_def)
  have g1: "get [(''resultObject'', JNull)] ''resultObject'' = JNull"
    by (simp add: get_def get_default_def)
  have r2: "containers_fetch_result null_string_world (JStr ''J1'') = Response ?str"
    by (simp add: null_string_world_def ok_response_def)
  have g2: "get [(''resultObject'', JStr ''null'')] ''resultObject'' = JStr ''null''"
    by (simp add: get_def get_default_def)
  have l2: "json_loads ex_lib ''null'' = Some JNull"
    by (simp add: ex_lib_def)
  have e: "exc_str ex_lib (HTTPException 500 ''No data received from PhantomBuster'')
             = ''500: No data received from PhantomBuster''"
    by (simp add: ex_exc_str_500)
  have raises: "fetch_and_clean_data ex_lib null_result_world (JStr ''J1'')
       = ([ResultFetch (JStr ''J1'')],
          Inl (HTTPException 500
                 ''Error processing data: 500: No data received from PhantomBuster''))"
    using null_result_field [OF r1, of "[(''resultObject'', JNull)]" ex_lib "''null''"] g1 e
    by simp
  have empty: "fetch_and_clean_data ex_lib null_string_world (JStr ''J1'')
       = ([ResultFetch (JStr ''J1'')], Inr [])"
    using null_result_field [OF r2, of "[(''resultObject'', JStr ''null'')]" ex_lib "''null''"] g2 l2
    by simp
  from r1 g1 raises r2 g2 l2 empty show ?thesis by blast
qed

text \<open>
  The claim C2 as it is written fails: a payload whose \<^verbatim>\<open>resultObject\<close> is \<^verbatim>\<open>null\<close> does
  not give the empty list but the 500.
\<close>

theorem null_result_raises:
  "containers_fetch_result null_result_world (JStr ''J1'')
     = ok_response (JObj [(''resultObject'', JNull)])
   \<and> fetch_and_clean_data ex_lib null_result_world (JStr ''J1'')
       = ([ResultFetch (JStr ''J1'')],
          Inl (HTTPException 500
                 ''Error processing data: 500: No data received from PhantomBuster''))
   \<and> snd (fetch_and_clean_data ex_lib null_result_world (JStr ''J1'')) \<noteq> Inr []"
  by (simp add: fetch_and_clean_data_def null_result_world_def ok_response_def read_result_def
      get_def get_default_def bind_run_def prepend_def ex_exc_str_500)

text \<open>
  C7, as the code has it. A result that is a single JSON object without the key
  \<^verbatim>\<open>jsonUrl\<close>, given as it is or as a string that decodes to it, is returned as the list of
  one element, the normalized projection of that object.
\<close>

theorem single_object_result:
  assumes "containers_fetch_result w c = Response r"
    and "status_code r = 200"
    and "json_value r = JObj d"
    and "map_of item ''jsonUrl'' = None"
  shows "(get d ''resultObject'' = JObj item \<longrightarrow>
            fetch_and_clean_data lib w c = ([ResultFetch c], Inr [process_profile item]))
       \<and> (get d ''resultObject'' = JStr s \<and> json_loads lib s = Some (JObj item) \<longrightarrow>
            fetch_and_clean_data lib w c = ([ResultFetch c], Inr [process_profile item]))"
proof (intro conjI impI)
  assume "get d ''resultObject'' = JObj item"
  then have "read_result lib (json_value r) = ([], Inr (JObj item))"
    using assms(3) by (simp add: read_result_def)
  then show "fetch_and_clean_data lib w c = ([ResultFetch c], Inr [process_profile item])"
    using assms(1,2,4)
    by (simp add: fetch_ok bind_run_def prepend_def follow_json_url_plain to_profiles_object)
next
  assume "get d ''resultObject'' = JStr s \<and> json_loads lib s = Some (JObj item)"
  then have "read_result lib (json_value r) = ([], Inr (JObj item))"
    using assms(3) by (simp add: read_result_def)
  then show "fetch_and_clean_data lib w c = ([ResultFetch c], Inr [process_profile item])"
    using assms(1,2,4)
    by (simp add: fetch_ok bind_run_def prepend_def follow_json_url_plain to_profiles_object)
qed

theorem single_object_result_witness:
  "containers_fetch_result single_object_world (JStr ''J1'')
     = ok_response (JObj [(''resultObject'',
          JObj [(''firstName'', JStr ''A''), (''lastName'', JStr ''B''), (''CompanyUrl'', JStr ''x'')])])
   \<and> map_of [(''firstName'', JStr ''A''), (''lastName'', JStr ''B''), (''CompanyUrl'', JStr ''x'')]
        ''jsonUrl'' = None
   \<and> fetch_and_clean_data ex_lib single_object_world (JStr ''J1'')
       = ([ResultFetch (JStr ''J1'')],
          Inr [process_profile [(''firstName'', JStr ''A''), (''lastName'', JStr ''B''),
                                (''CompanyUrl'', JStr ''x'')]])
   \<and> containers_fetch_result object_string_world (JStr ''J1'')
       = ok_response (JObj [(''resultObject'', JStr ''{}'')])
   \<and> json_loads ex_lib ''{}'' = Some (JObj [])
   \<and> fetch_and_clean_data ex_lib object_string_world (JStr ''J1'')
       = ([ResultFetch (JStr ''J1'')], Inr [process_profile []])"
proof -
  let ?item = "[(''firstName'', JStr ''A''), (''lastName'', JStr ''B''), (''CompanyUrl'', JStr ''x'')]"
  let ?d1 = "[(''resultObject'', JObj ?item)]"
  let ?d2 = "[(''resultObject'', JStr ''{}'')]"
  have r1: "containers_fetch_result single_object_world (JStr ''J1'') = ok_response (JObj ?d1)"
    by (simp add: single_object_world_def)
  have r2: "containers_fetch_result object_string_world (JStr ''J1'') = ok_response (JObj ?d2)"
    by (simp add: object_string_world_def)
  have n1: "map_of ?item ''jsonUrl'' = None" by simp
  have n2: "map_of ([] :: dict) ''jsonUrl'' = None" by simp
  have l2: "json_loads ex_lib ''{}'' = Some (JObj [])" by (simp add: ex_lib_def)
  have direct: "fetch_and_clean_data ex_lib single_object_world (JStr ''J1'')
       = ([ResultFetch (JStr ''J1'')], Inr [process_profile ?item])"
    using single_object_result [OF r1 [unfolded ok_response_def] _ _ n1, of ?d1 ex_lib "''{}''"]
    by (simp add: get_def get_default_def)
  have decoded: "fetch_and_clean_data ex_lib object_string_world (JStr ''J1'')
       = ([ResultFetch (JStr ''J1'')], Inr [process_profile []])"
    using single_object_result [OF r2 [unfolded ok_response_def] _ _ n2, of ?d2 ex_lib "''{}''"] l2
    by (simp add: get_def get_default_def)
  from r1 n1 direct r2 l2 decoded show ?thesis by simp
qed

text \<open>
  The claim C7 as it is written fails: a result that is the single object
  \<^verbatim>\<open>{"jsonUrl": ...}\<close> is replaced by what that URL holds, here the empty list, and no
  record is returned.
\<close>

theorem single_object_with_json_url:
  "containers_fetch_result indirect_world (JStr ''J1'')
     = ok_response (JObj [(''resultObject'',
          JObj [(''jsonUrl'', JStr ''https://cache.example/result.json'')])])
   \<and> fetch_and_clean_data ex_lib indirect_world (JStr ''J1'')
       = ([ResultFetch (JStr ''J1''), UrlGet (JStr ''https://cache.example/result.json'')], Inr [])
   \<and> length (case snd (fetch_and_clean_data ex_lib indirect_world (JStr ''J1'')) of
               Inr profiles \<Rightarrow> profiles | Inl e \<Rightarrow> []) \<noteq> 1"
  by (simp add: fetch_and_clean_data_def indirect_world_def ok_response_def read_result_def
      follow_json_url_def to_profiles_def get_def get_default_def bind_run_def prepend_def)

section \<open>Persisting the session\<close>

text \<open>The stages of the provider do not write to the store.\<close>

lemma no_write_bind_run:
  assumes "filter is_write (fst m) = []" and "\<And>x. filter is_write (fst (f x)) = []"
  shows "filter is_write (fst (bind_run m f)) = []"
  using assms by (simp add: bind_run_def prepend_def split: sum.splits)

lemma no_write_wait_loop: "filter is_write (fst (wait_loop w p a)) = []"
proof (induction "max_retries - a" arbitrary: a)
  case 0
  then show ?case by (subst wait_loop.simps) simp
next
  case (Suc k)
  then have "filter is_write (fst (wait_loop w p (a + 1))) = []" by simp
  then show ?case
    by (subst wait_loop.simps)
       (simp add: is_phantom_running_def prepend_def sleep_unless_last_def
          split: sum.splits exn.splits)
qed

lemma no_write_wait_loop_pair: "wait_loop w p a = (ev, res) \<Longrightarrow> filter is_write ev = []"
  using no_write_wait_loop [of w p a] by simp

lemma no_write_first_available: "filter is_write (fst (first_available w ids)) = []"
  by (induction ids)
     (auto simp add: wait_for_phantom_availability_def prepend_def
        dest: no_write_wait_loop_pair split: prod.splits sum.splits)

lemma no_write_trigger_loop: "filter is_write (fst (trigger_loop lib w p c u a)) = []"
proof (induction "max_retries - a" arbitrary: a)
  case 0
  then show ?case by (subst trigger_loop.simps) simp
next
  case (Suc k)
  then have "filter is_write (fst (trigger_loop lib w p c u (a + 1))) = []" by simp
  then show ?case
    by (subst trigger_loop.simps) (simp add: prepend_def split: reply.splits)
qed

lemma no_write_check_loop: "filter is_write (fst (check_loop lib w c n)) = []"
proof (induction "container_max_retries - n" arbitrary: n)
  case 0
  then show ?case by (subst check_loop.simps) simp
next
  case (Suc k)
  then have "filter is_write (fst (check_loop lib w c (n + 1))) = []" by simp
  then show ?case
    by (subst check_loop.simps) (auto split: reply.splits json.splits prod.splits)
qed

lemma no_write_check_container_status:
  "filter is_write (fst (check_container_status lib w c)) = []"
  using no_write_check_loop [of lib w c 0]
  by (auto simp add: check_container_status_def split: prod.splits)

lemma no_write_fetch: "filter is_write (fst (fetch_and_clean_data lib w c)) = []"
  by (simp add: fetch_and_clean_data_def prepend_def bind_run_def read_result_def
      follow_json_url_def to_profiles_def
      split: reply.splits prod.splits sum.splits json.splits option.splits)

lemma no_write_run_job: "filter is_write (fst (run_job lib w query_data)) = []"
  unfolding run_job_def
  by (intro no_write_bind_run)
     (simp_all add: get_available_phantom_def no_write_first_available trigger_phantom_def
        no_write_trigger_loop no_write_check_container_status no_write_fetch)
text \<open>What \<^verbatim>\<open>updateUser\<close> would write; the endpoint does not call it.\<close>

lemma updateUser_existing_writes_timestamp:
  assumes "st (''users'', i) = Some doc" and "db_fault w = (\<lambda>e. None)" and "f \<noteq> ''last_updated''"
  shows "updateUser w st ''users'' i f v
           = (st((''users'', i) \<mapsto> doc ++ map_of [(f, FStr v), (''last_updated'', ServerTimestamp)]),
              [DocGet ''users'' i,
               DocUpdate ''users'' i [(f, FStr v), (''last_updated'', ServerTimestamp)]],
              Inr True)"
  using assms
  by (simp add: updateUser_def check_user_exists_def firestore_exists_def firestore_update_def)

text \<open>A session that is saved: one read, then one write of the two fields.\<close>

lemma save_session_ok:
  assumes "save_session lib w st i query_data = (st', ev, Inr u)"
  shows "ev = [DocGet ''users'' i,
               if st (''users'', i) = None
               then DocSet ''users'' i [(''Events_URL'', FStr (url query_data)),
                                       (''sessionCookie'', FStr (cookie query_data))]
               else DocUpdate ''users'' i [(''Events_URL'', FStr (url query_data)),
                                          (''sessionCookie'', FStr (cookie query_data))]]
       \<and> st' = st((''users'', i) \<mapsto>
                 (case st (''users'', i) of
                    None \<Rightarrow> map_of [(''Events_URL'', FStr (url query_data)),
                                    (''sessionCookie'', FStr (cookie query_data))]
                  | Some doc \<Rightarrow> doc ++ map_of [(''Events_URL'', FStr (url query_data)),
                                               (''sessionCookie'', FStr (cookie query_data))]))"
  using assms
  by (auto simp add: save_session_def Let_def firestore_exists_def firestore_set_def
      firestore_update_def split: option.splits if_splits)

text \<open>The request of the scenario, evaluated.\<close>

lemma ex_wait: "wait_for_phantom_availability ex_world p = ([AgentFetch p], Inr True)"
  unfolding wait_for_phantom_availability_def
  by (subst wait_loop.simps)
     (simp add: max_retries_def is_phantom_running_def ex_world_def ok_response_def get_def
        get_default_def)

lemma ex_trigger:
  "trigger_phantom ex_lib ex_world p c u = ([AgentLaunch p c u], Inr (JStr ''J1''))"
  unfolding trigger_phantom_def
  by (subst trigger_loop.simps) (simp add: max_retries_def ex_world_def ok_response_def)

lemma ex_check:
  "check_container_status ex_lib ex_world c
     = ([ContainerFetch c, Sleep 10, ContainerFetch c, Sleep 10, ContainerFetch c], Inr ())"
proof -
  have "\<forall>n<2. pending_poll (containers_fetch ex_world c n)"
    by (simp add: pending_poll_def ex_world_def ok_response_def get_def get_default_def)
  then have "check_loop ex_lib ex_world c 0
          = (case check_loop ex_lib ex_world c 2 of (ev, res) \<Rightarrow> (poll_trace c 0 2 @ ev, res))"
    by (intro check_loop_pending_until) (simp_all add: container_max_retries_def)
  moreover have "check_loop ex_lib ex_world c 2 = ([ContainerFetch c], 2, Inr ())"
    by (intro check_loop_finished)
       (simp_all add: container_max_retries_def finished_poll_def ex_world_def ok_response_def
          get_def get_default_def)
  moreover have "poll_trace c 0 2 = [ContainerFetch c, Sleep 10, ContainerFetch c, Sleep 10]"
    by (simp add: poll_trace_def upt_conv_Cons)
  ultimately show ?thesis by (simp add: check_container_status_def)
qed

lemma ex_fetch:
  "fetch_and_clean_data ex_lib ex_world c
     = ([ResultFetch c], Inr [process_profile [], process_profile []])"
  by (simp add: fetch_and_clean_data_def ex_world_def ok_response_def read_result_def
      follow_json_url_def to_profiles_def get_def get_default_def bind_run_def prepend_def
      ex_lib_def)

lemma ex_run_job:
  "run_job ex_lib ex_world ex_query
     = ([AgentFetch ''2696753432671290'',
         AgentLaunch ''2696753432671290'' ''sess123'' ''https://www.linkedin.com/sales/search/people'',
         ContainerFetch (JStr ''J1''), Sleep 10, ContainerFetch (JStr ''J1''), Sleep 10,
         ContainerFetch (JStr ''J1''), ResultFetch (JStr ''J1'')],
        Inr [process_profile [], process_profile []])"
  by (simp add: run_job_def get_available_phantom_def phantom_ids_def ex_wait ex_trigger ex_check
      ex_fetch bind_run_def prepend_def ex_query_def)

lemma ex_run:
  "search_sales_navigator ex_lib ex_world Map.empty ex_query ex_user
     = (Map.empty((''users'', ''u1'') \<mapsto>
          map_of [(''Events_URL'', FStr ''https://www.linkedin.com/sales/search/people''),
                  (''sessionCookie'', FStr ''sess123'')]),
        [AgentFetch ''2696753432671290'',
         AgentLaunch ''2696753432671290'' ''sess123'' ''https://www.linkedin.com/sales/search/people'',
         ContainerFetch (JStr ''J1''), Sleep 10, ContainerFetch (JStr ''J1''), Sleep 10,
         ContainerFetch (JStr ''J1''), ResultFetch (JStr ''J1''),
         DocGet ''users'' ''u1'',
         DocSet ''users'' ''u1''
           [(''Events_URL'', FStr ''https://www.linkedin.com/sales/search/people''),
            (''sessionCookie'', FStr ''sess123'')]],
        Inr (JObj [(''events'', JList [JObj (process_profile []), JObj (process_profile [])]),
                   (''userId'', JStr ''u1''),
                   (''message'', JStr ''https://www.linkedin.com/sales/search/people'')]))"
proof -
  have key: "PhantomBusterClient ex_world = Inr ()"
    by (simp add: PhantomBusterClient_def ex_world_def)
  have str: "py_str ex_lib (JStr ''u1'') = ''u1''"
    by (simp add: ex_lib_def)
  have save: "save_session ex_lib ex_world Map.empty ''u1'' ex_query
     = (Map.empty((''users'', ''u1'') \<mapsto>
          map_of [(''Events_URL'', FStr ''https://www.linkedin.com/sales/search/people''),
                  (''sessionCookie'', FStr ''sess123'')]),
        [DocGet ''users'' ''u1'',
         DocSet ''users'' ''u1''
           [(''Events_URL'', FStr ''https://www.linkedin.com/sales/search/people''),
            (''sessionCookie'', FStr ''sess123'')]],
        Inr ())"
    by (simp add: save_session_def firestore_exists_def firestore_set_def ex_world_def
        ex_query_def)
  have url: "url ex_query = ''https://www.linkedin.com/sales/search/people''"
    by (simp add: ex_query_def)
  show ?thesis
    by (simp add: search_sales_navigator_def Let_def ex_user_def key str ex_document_u1
        ex_run_job save url)
qed

lemma ex_run_result:
  "snd (snd (search_sales_navigator ex_lib ex_world Map.empty ex_query ex_user))
     = Inr (JObj [(''events'', JList [JObj (process_profile []), JObj (process_profile [])]),
                  (''userId'', JStr ''u1''),
                  (''message'', JStr ''https://www.linkedin.com/sales/search/people'')])"
  by (simp add: ex_run)

text \<open>
  C3, as the code has it. On every request that succeeds, exactly one write to the store
  is made before the response: \<^verbatim>\<open>set\<close> on the user's document when it does not exist,
  \<^verbatim>\<open>update\<close> when it does, with the two fields \<^verbatim>\<open>Events_URL\<close> and \<^verbatim>\<open>sessionCookie\<close> of the
  request and nothing else. After it the document holds these two values, the other
  fields of a document that existed are kept, and the write has no \<^verbatim>\<open>last_updated\<close>.
\<close>

theorem session_written_once:
  assumes "search_sales_navigator lib w st query_data user = (st', ev, Inr resp)"
  shows "\<exists>uid. map_of user ''uid'' = Some uid
           \<and> filter is_write ev
               = [if st (''users'', py_str lib uid) = None
                  then DocSet ''users'' (py_str lib uid)
                         [(''Events_URL'', FStr (url query_data)),
                          (''sessionCookie'', FStr (cookie query_data))]
                  else DocUpdate ''users'' (py_str lib uid)
                         [(''Events_URL'', FStr (url query_data)),
                          (''sessionCookie'', FStr (cookie query_data))]]
           \<and> st' = st((''users'', py_str lib uid) \<mapsto>
                 (case st (''users'', py_str lib uid) of
                    None \<Rightarrow> map_of [(''Events_URL'', FStr (url query_data)),
                                    (''sessionCookie'', FStr (cookie query_data))]
                  | Some doc \<Rightarrow> doc ++ map_of [(''Events_URL'', FStr (url query_data)),
                                               (''sessionCookie'', FStr (cookie query_data))]))
           \<and> map (\<lambda>e. map fst (written_fields e)) (filter is_write ev)
               = [[''Events_URL'', ''sessionCookie'']]"
proof -
  from assms obtain uid ev1 results ev2 u where
    uid: "map_of user ''uid'' = Some uid"
    and job: "run_job lib w query_data = (ev1, Inr results)"
    and save: "save_session lib w st (py_str lib uid) query_data = (st', ev2, Inr u)"
    and ev: "ev = ev1 @ ev2"
    by (auto simp add: search_sales_navigator_def Let_def
        split: if_splits option.splits sum.splits prod.splits)
  have "filter is_write ev1 = []"
    using no_write_run_job [of lib w query_data] job by simp
  with ev save_session_ok [OF save] uid show ?thesis by auto
qed

theorem session_written_once_witness:
  "snd (snd (search_sales_navigator ex_lib ex_world Map.empty ex_query ex_user))
     = Inr (JObj [(''events'', JList [JObj (process_profile []), JObj (process_profile [])]),
                  (''userId'', JStr ''u1''),
                  (''message'', JStr ''https://www.linkedin.com/sales/search/people'')])
   \<and> filter is_write (fst (snd (search_sales_navigator ex_lib ex_world Map.empty ex_query ex_user)))
       = [DocSet ''users'' ''u1''
            [(''Events_URL'', FStr ''https://www.linkedin.com/sales/search/people''),
             (''sessionCookie'', FStr ''sess123'')]]"
proof -
  obtain st' ev res where
    run: "search_sales_navigator ex_lib ex_world Map.empty ex_query ex_user = (st', ev, res)"
    by (metis prod.collapse)
  have res: "res = Inr (JObj [(''events'', JList [JObj (process_profile []), JObj (process_profile [])]),
                  (''userId'', JStr ''u1''),
                  (''message'', JStr ''https://www.linkedin.com/sales/search/people'')])"
    using run ex_run_result by simp
  from session_written_once [OF run [unfolded res]]
  have "filter is_write ev
       = [DocSet ''users'' ''u1''
            [(''Events_URL'', FStr ''https://www.linkedin.com/sales/search/people''),
             (''sessionCookie'', FStr ''sess123'')]]"
    by (auto simp add: ex_user_def ex_lib_def ex_query_def)
  with run res show ?thesis by simp
qed

text \<open>
  The claim C3 as it is written fails at its last part: in the request that succeeds the
  one write is a \<^verbatim>\<open>set\<close> of two fields, neither of them \<^verbatim>\<open>last_updated\<close>, and the document
  stored has no such field.
\<close>

theorem session_write_without_timestamp:
  "\<not> isl (snd (snd (search_sales_navigator ex_lib ex_world Map.empty ex_query ex_user)))
   \<and> map (\<lambda>e. map_of (written_fields e) ''last_updated'')
        (filter is_write (fst (snd (search_sales_navigator ex_lib ex_world Map.empty ex_query ex_user))))
       = [None]
   \<and> (case fst (search_sales_navigator ex_lib ex_world Map.empty ex_query ex_user) (''users'', ''u1'') of
         None \<Rightarrow> None
       | Some doc \<Rightarrow> Some (doc ''last_updated'')) = Some None"
  by (simp add: ex_run)

section \<open>The request before the acquisition\<close>

text \<open>
  A \<^verbatim>\<open>uid\<close> that does not name a document of \<^verbatim>\<open>users\<close> ends the request with a 500 before
  any status check: the \<^verbatim>\<open>ValueError\<close> of the document reference is caught by
  \<^verbatim>\<open>except Exception\<close>.
\<close>

lemma bad_document_path:
  assumes "map_of user ''uid'' = Some uid"
    and "PhantomBusterClient w = Inr ()"
    and "document_error lib (py_str lib uid) = Some m"
  shows "search_sales_navigator lib w st query_data user
           = (st, [], Inl (HTTPException 500
                (''Internal server error: '' @ exc_str lib (PyError (ValueError m)))))"
proof -
  have "user \<noteq> []" using assms(1) by auto
  then show ?thesis
    using assms by (simp add: search_sales_navigator_def Let_def reraise_def)
qed

lemma bad_document_path_example:
  "search_sales_navigator ex_lib busy_world Map.empty ex_query [(''uid'', JStr ''a/b'')]
     = (Map.empty, [],
        Inl (HTTPException 500
          ''Internal server error: A document must have an even number of path elements''))"
proof -
  have "PhantomBusterClient busy_world = Inr ()"
    by (simp add: PhantomBusterClient_def busy_world_def ex_world_def)
  moreover have "document_error ex_lib (py_str ex_lib (JStr ''a/b''))
                   = Some ''A document must have an even number of path elements''"
    by (simp add: ex_lib_def)
  ultimately show ?thesis
    using bad_document_path [of "[(''uid'', JStr ''a/b'')]" "JStr ''a/b''" busy_world ex_lib
        "''A document must have an even number of path elements''" Map.empty ex_query]
    by (simp add: ex_lib_def)
qed

end
